theory Spec2Isabelle
  imports Complex_Main
begin

section \<open>Data model (package intent)\<close>

text \<open>
  A Go \<^verbatim>\<open>float64\<close> is either a finite number, one of the two infinities, or NaN.
  A finite value is modelled by the real number it denotes; the comparisons of
  IEEE 754 are exact, so on finite values they are the comparisons of the reals.
  The sign of zero is not modelled: the program only compares and adds these values,
  and prints one only when it is above 100.
\<close>

datatype float64 = Finite real | PosInf | NegInf | NaN

fun f_le :: "float64 \<Rightarrow> float64 \<Rightarrow> bool" where
  "f_le NaN _ = False"
| "f_le _ NaN = False"
| "f_le NegInf _ = True"
| "f_le _ PosInf = True"
| "f_le (Finite a) (Finite b) = (a \<le> b)"
| "f_le (Finite a) NegInf = False"
| "f_le PosInf (Finite b) = False"
| "f_le PosInf NegInf = False"

fun f_lt :: "float64 \<Rightarrow> float64 \<Rightarrow> bool" where
  "f_lt NaN _ = False"
| "f_lt _ NaN = False"
| "f_lt (Finite a) (Finite b) = (a < b)"
| "f_lt NegInf NegInf = False"
| "f_lt NegInf _ = True"
| "f_lt PosInf _ = False"
| "f_lt (Finite a) PosInf = True"
| "f_lt (Finite a) NegInf = False"

definition f_ge :: "float64 \<Rightarrow> float64 \<Rightarrow> bool" where
  "f_ge a b = f_le b a"

definition f_gt :: "float64 \<Rightarrow> float64 \<Rightarrow> bool" where
  "f_gt a b = f_lt b a"

text \<open>\<^verbatim>\<open>type Intent string\<close> and \<^verbatim>\<open>type Side string\<close>: both are strings, so a
  command can carry any string there, the empty one (Go's zero value) included.\<close>

type_synonym Intent = string
type_synonym Side = string

definition IntentOpenPosition :: Intent where "IntentOpenPosition = ''open_position''"
definition IntentClosePosition :: Intent where "IntentClosePosition = ''close_position''"
definition IntentViewPositions :: Intent where "IntentViewPositions = ''view_positions''"
definition IntentViewOrders :: Intent where "IntentViewOrders = ''view_orders''"
definition IntentCancelOrders :: Intent where "IntentCancelOrders = ''cancel_orders''"
definition IntentCheckBalance :: Intent where "IntentCheckBalance = ''check_balance''"
definition IntentBreakEven :: Intent where "IntentBreakEven = ''break_even''"
definition IntentTrailingStop :: Intent where "IntentTrailingStop = ''trailing_stop''"
definition IntentUnknown :: Intent where "IntentUnknown = ''unknown''"

definition SideLong :: Side where "SideLong = ''LONG''"
definition SideShort :: Side where "SideShort = ''SHORT''"

record TPLevel =
  Price :: float64
  Percentage :: float64

text \<open>A nil pointer is \<open>None\<close>. \<open>Timestamp\<close> is the reading of the clock, an integer.\<close>

record NormalizedCommand =
  Intent :: Intent
  Confidence :: float64
  Symbol :: string
  Side :: "Side option"
  EntryPrice :: "float64 option"
  StopLoss :: "float64 option"
  TakeProfit :: "float64 option"
  TriggerPrice :: "float64 option"
  TPLevels :: "TPLevel list"
  RiskPercent :: "float64 option"
  RRRatio :: "float64 option"
  CallbackRate :: "float64 option"
  Distance :: "float64 option"
  Valid :: bool
  Missing :: "string list"
  Errors :: "string list"
  RawInput :: string
  Language :: string
  Timestamp :: int

section \<open>The validator (package validators)\<close>

text \<open>
  The validator mutates the command in place; here each statement takes the command
  and returns the updated one. The two helpers below are the statement pairs
  \<^verbatim>\<open>cmd.Missing = append(cmd.Missing, f); cmd.Valid = false\<close> and
  \<^verbatim>\<open>cmd.Errors = append(cmd.Errors, e); cmd.Valid = false\<close> of the source.
\<close>

definition add_missing :: "string \<Rightarrow> NormalizedCommand \<Rightarrow> NormalizedCommand" where
  "add_missing f cmd = cmd\<lparr>Missing := Missing cmd @ [f], Valid := False\<rparr>"

definition add_error :: "string \<Rightarrow> NormalizedCommand \<Rightarrow> NormalizedCommand" where
  "add_error e cmd = cmd\<lparr>Errors := Errors cmd @ [e], Valid := False\<rparr>"

text \<open>A Go statement \<^verbatim>\<open>if cond { body }\<close> without else: the body runs when the condition
  holds of the current state, otherwise the state is left as it is.\<close>

definition if_stmt ::
  "(NormalizedCommand \<Rightarrow> bool) \<Rightarrow> (NormalizedCommand \<Rightarrow> NormalizedCommand)
     \<Rightarrow> NormalizedCommand \<Rightarrow> NormalizedCommand" where
  "if_stmt cond body cmd = (if cond cmd then body cmd else cmd)"

text \<open>The loop \<^verbatim>\<open>totalPct := 0.0; for _, tp := range cmd.TPLevels { totalPct += tp.Percentage }\<close>.
  The rounding addition of \<^verbatim>\<open>float64\<close> is the parameter \<open>fadd\<close>.\<close>

definition totalPct :: "(float64 \<Rightarrow> float64 \<Rightarrow> float64) \<Rightarrow> TPLevel list \<Rightarrow> float64" where
  "totalPct fadd tps = foldl (\<lambda>acc tp. fadd acc (Percentage tp)) (Finite 0) tps"

text \<open>\<open>fmt1\<close> is \<^verbatim>\<open>fmt.Sprintf("%.1f", x)\<close> of the Go library, a parameter as well.\<close>

definition tp_error_message :: "(float64 \<Rightarrow> string) \<Rightarrow> float64 \<Rightarrow> string" where
  "tp_error_message fmt1 x = ''TP percentages sum to '' @ fmt1 x @ ''%, cannot exceed 100%''"

text \<open>The condition \<^verbatim>\<open>cmd.RiskPercent != nil && (*cmd.RiskPercent <= 0 || *cmd.RiskPercent > 100)\<close>.\<close>

definition risk_out_of_range :: "NormalizedCommand \<Rightarrow> bool" where
  "risk_out_of_range cmd =
     (case RiskPercent cmd of
        None \<Rightarrow> False
      | Some r \<Rightarrow> f_le r (Finite 0) \<or> f_gt r (Finite 100))"

text \<open>The block guarded by
  \<^verbatim>\<open>cmd.Side != nil && cmd.EntryPrice != nil && cmd.StopLoss != nil\<close>, with its two inner
  \<^verbatim>\<open>if\<close> statements; the three pointers are dereferenced only inside it.\<close>

definition price_logic :: "NormalizedCommand \<Rightarrow> NormalizedCommand" where
  "price_logic cmd0 =
     (case (Side cmd0, EntryPrice cmd0, StopLoss cmd0) of
        (Some side, Some entry, Some sl) \<Rightarrow>
          (let cmd1 = if_stmt (\<lambda>_. side = SideLong \<and> f_ge sl entry)
                        (add_error ''stop_loss must be below entry_price for LONG'') cmd0;
               cmd2 = if_stmt (\<lambda>_. side = SideShort \<and> f_le sl entry)
                        (add_error ''stop_loss must be above entry_price for SHORT'') cmd1
           in cmd2)
      | _ \<Rightarrow> cmd0)"

text \<open>The block guarded by \<^verbatim>\<open>len(cmd.TPLevels) > 0\<close>.\<close>

definition tp_check ::
  "(float64 \<Rightarrow> float64 \<Rightarrow> float64) \<Rightarrow> (float64 \<Rightarrow> string) \<Rightarrow> NormalizedCommand \<Rightarrow> NormalizedCommand" where
  "tp_check fadd fmt1 cmd =
     (let total = totalPct fadd (TPLevels cmd)
      in if_stmt (\<lambda>_. f_gt total (Finite 100)) (add_error (tp_error_message fmt1 total)) cmd)"

definition validateOpenPosition ::
  "(float64 \<Rightarrow> float64 \<Rightarrow> float64) \<Rightarrow> (float64 \<Rightarrow> string) \<Rightarrow> NormalizedCommand \<Rightarrow> NormalizedCommand" where
  "validateOpenPosition fadd fmt1 cmd0 =
    (let cmd1 = if_stmt (\<lambda>c. Symbol c = []) (add_missing ''symbol'') cmd0;
         cmd2 = if_stmt (\<lambda>c. Side c = None) (add_missing ''side'') cmd1;
         cmd3 = if_stmt (\<lambda>c. EntryPrice c = None) (add_missing ''entry_price'') cmd2;
         cmd4 = if_stmt (\<lambda>c. StopLoss c = None) (add_missing ''stop_loss'') cmd3;
         cmd5 = if_stmt (\<lambda>c. RiskPercent c = None) (add_missing ''risk_percent'') cmd4;
         cmd6 = if_stmt risk_out_of_range
                  (add_error ''risk_percent must be between 0 and 100'') cmd5;
         cmd7 = price_logic cmd6;
         cmd8 = if_stmt (\<lambda>c. length (TPLevels c) > 0) (tp_check fadd fmt1) cmd7
     in cmd8)"

definition validateClosePosition :: "NormalizedCommand \<Rightarrow> NormalizedCommand" where
  "validateClosePosition cmd = if_stmt (\<lambda>c. Symbol c = []) (add_missing ''symbol'') cmd"

definition validateTrailingStop :: "NormalizedCommand \<Rightarrow> NormalizedCommand" where
  "validateTrailingStop cmd0 =
    (let cmd1 = if_stmt (\<lambda>c. Symbol c = []) (add_missing ''symbol'') cmd0;
         cmd2 = if_stmt (\<lambda>c. TriggerPrice c = None) (add_missing ''trigger_price'') cmd1;
         cmd3 = if_stmt (\<lambda>c. CallbackRate c = None \<and> Distance c = None)
                  (add_missing ''callback_rate or distance'') cmd2
     in cmd3)"

definition validateBreakEven :: "NormalizedCommand \<Rightarrow> NormalizedCommand" where
  "validateBreakEven cmd = if_stmt (\<lambda>c. Symbol c = []) (add_missing ''symbol'') cmd"

text \<open>\<^verbatim>\<open>fmt.Sprintf("unknown intent: %s", cmd.Intent)\<close>: the verb \<^verbatim>\<open>%s\<close> on a string type
  copies the string.\<close>

definition ValidateCommand ::
  "(float64 \<Rightarrow> float64 \<Rightarrow> float64) \<Rightarrow> (float64 \<Rightarrow> string) \<Rightarrow> NormalizedCommand \<Rightarrow> NormalizedCommand" where
  "ValidateCommand fadd fmt1 cmd0 =
    (let cmd = cmd0\<lparr>Valid := True, Missing := [], Errors := []\<rparr>
     in if Intent cmd = IntentOpenPosition then validateOpenPosition fadd fmt1 cmd
        else if Intent cmd = IntentClosePosition then validateClosePosition cmd
        else if Intent cmd = IntentTrailingStop then validateTrailingStop cmd
        else if Intent cmd = IntentBreakEven then validateBreakEven cmd
        else if Intent cmd = IntentCancelOrders \<or> Intent cmd = IntentViewPositions
                \<or> Intent cmd = IntentViewOrders \<or> Intent cmd = IntentCheckBalance then cmd
        else add_error (''unknown intent: '' @ Intent cmd) cmd)"

section \<open>The Go string library\<close>

text \<open>
  A Go string is a sequence of bytes, read as UTF-8 where the library looks at code
  points. The functions below are those of package \<^verbatim>\<open>strings\<close> that the transformer
  calls. \<open>TrimSpace\<close>, \<open>HasSuffix\<close> and \<open>Split\<close> are modelled on every byte string.
  \<open>ToLower\<close> and \<open>ToUpper\<close> map the ASCII letters and leave every other byte as it is:
  they are the library's functions on ASCII strings (on other code points Go applies the
  Unicode case mapping, which is outside this model).

  \<^verbatim>\<open>strings.TrimSpace\<close> removes, at both ends, the code points that \<^verbatim>\<open>unicode.IsSpace\<close>
  accepts: U+0009 to U+000D, U+0020, U+0085, U+00A0, U+1680, U+2000 to U+200A, U+2028,
  U+2029, U+202F, U+205F and U+3000. \<open>space_runes\<close> lists their UTF-8 encodings. Any other
  byte sequence is not white space: an overlong or broken encoding is decoded by Go as
  U+FFFD, one byte wide. None of the listed encodings begins or ends another one, and the
  bytes after the first of an encoding are continuation bytes, which begin no code point;
  so finding a listed encoding at the start (at the end) of a string is the same as
  decoding its first (last) code point and testing it.
\<close>

definition space_runes :: "string list" where
  "space_runes =
     [[CHR 0x09], [CHR 0x0A], [CHR 0x0B], [CHR 0x0C], [CHR 0x0D], [CHR 0x20],
      [CHR 0xC2, CHR 0x85], [CHR 0xC2, CHR 0xA0],
      [CHR 0xE1, CHR 0x9A, CHR 0x80],
      [CHR 0xE2, CHR 0x80, CHR 0x80], [CHR 0xE2, CHR 0x80, CHR 0x81],
      [CHR 0xE2, CHR 0x80, CHR 0x82], [CHR 0xE2, CHR 0x80, CHR 0x83],
      [CHR 0xE2, CHR 0x80, CHR 0x84], [CHR 0xE2, CHR 0x80, CHR 0x85],
      [CHR 0xE2, CHR 0x80, CHR 0x86], [CHR 0xE2, CHR 0x80, CHR 0x87],
      [CHR 0xE2, CHR 0x80, CHR 0x88], [CHR 0xE2, CHR 0x80, CHR 0x89],
      [CHR 0xE2, CHR 0x80, CHR 0x8A],
      [CHR 0xE2, CHR 0x80, CHR 0xA8], [CHR 0xE2, CHR 0x80, CHR 0xA9],
      [CHR 0xE2, CHR 0x80, CHR 0xAF],
      [CHR 0xE2, CHR 0x81, CHR 0x9F],
      [CHR 0xE3, CHR 0x80, CHR 0x80]]"

text \<open>The number of bytes of the white-space code point at the start of the string, and
  of the one at its end; 0 where there is none.\<close>

definition space_width :: "string \<Rightarrow> nat" where
  "space_width s =
     (case find (\<lambda>r. take (length r) s = r) space_runes of
        None \<Rightarrow> 0
      | Some r \<Rightarrow> length r)"

definition last_space_width :: "string \<Rightarrow> nat" where
  "last_space_width s =
     (case find (\<lambda>r. take (length r) (rev s) = rev r) space_runes of
        None \<Rightarrow> 0
      | Some r \<Rightarrow> length r)"

text \<open>\<^verbatim>\<open>strings.TrimLeftFunc(s, unicode.IsSpace)\<close> and
  \<^verbatim>\<open>strings.TrimRightFunc(s, unicode.IsSpace)\<close>: each loop removes one code point per
  round, so it ends.\<close>

function TrimLeftSpace :: "string \<Rightarrow> string" where
  "TrimLeftSpace s =
     (if space_width s = 0 then s else TrimLeftSpace (drop (space_width s) s))"
  by pat_completeness auto
termination
proof (relation "measure length")
  show "wf (measure length)"
    by simp
next
  fix s :: string
  assume width: "space_width s \<noteq> 0"
  then have "s \<noteq> []"
    by (auto simp: space_width_def space_runes_def)
  with width show "(drop (space_width s) s, s) \<in> measure length"
    by simp
qed

function TrimRightSpace :: "string \<Rightarrow> string" where
  "TrimRightSpace s =
     (if last_space_width s = 0 then s
      else TrimRightSpace (take (length s - last_space_width s) s))"
  by pat_completeness auto
termination
proof (relation "measure length")
  show "wf (measure length)"
    by simp
next
  fix s :: string
  assume width: "last_space_width s \<noteq> 0"
  then have "s \<noteq> []"
    by (auto simp: last_space_width_def space_runes_def)
  with width show "(take (length s - last_space_width s) s, s) \<in> measure length"
    by simp
qed

declare TrimLeftSpace.simps [simp del] TrimRightSpace.simps [simp del]

definition TrimSpace :: "string \<Rightarrow> string" where
  "TrimSpace s = TrimRightSpace (TrimLeftSpace s)"

text \<open>A continuation byte of UTF-8: \<^verbatim>\<open>10xxxxxx\<close>.\<close>

definition continuation :: "char \<Rightarrow> bool" where
  "continuation c = (128 \<le> (of_char c :: nat) \<and> (of_char c :: nat) < 192)"

definition lower_char :: "char \<Rightarrow> char" where
  "lower_char c = (let n = (of_char c :: nat) in if 65 \<le> n \<and> n \<le> 90 then char_of (n + 32) else c)"

definition upper_char :: "char \<Rightarrow> char" where
  "upper_char c = (let n = (of_char c :: nat) in if 97 \<le> n \<and> n \<le> 122 then char_of (n - 32) else c)"

definition ToLower :: "string \<Rightarrow> string" where
  "ToLower s = map lower_char s"

definition ToUpper :: "string \<Rightarrow> string" where
  "ToUpper s = map upper_char s"

definition HasSuffix :: "string \<Rightarrow> string \<Rightarrow> bool" where
  "HasSuffix s suffix =
     (length suffix \<le> length s \<and> drop (length s - length suffix) s = suffix)"

text \<open>\<^verbatim>\<open>strings.Split(s, sep)\<close> for a separator of one character: one more piece than
  there are separators, so the empty string gives one piece, the empty string.\<close>

fun Split :: "string \<Rightarrow> char \<Rightarrow> string list" where
  "Split [] sep = [[]]"
| "Split (c # cs) sep =
     (if c = sep then [] # Split cs sep
      else (case Split cs sep of
              [] \<Rightarrow> [[c]]
            | w # ws \<Rightarrow> (c # w) # ws))"

section \<open>The transformer (package witai)\<close>

record WitAIIntent =
  intent_ID :: string
  intent_Name :: string
  intent_Confidence :: float64

record WitAIEntity =
  entity_ID :: string
  entity_Name :: string
  entity_Role :: string
  entity_Start :: int
  entity_End :: int
  entity_Body :: string
  entity_Value :: string
  entity_Confidence :: float64
  entity_Type :: string

text \<open>\<open>Entities\<close> is a Go map; the transformer ranges over it, in an order the runtime
  chooses. The list is the map's entries in the order of that iteration. The field
  \<^verbatim>\<open>Traits\<close> is never read and is left out.\<close>

record WitAIResponse =
  Text :: string
  Intents :: "WitAIIntent list"
  Entities :: "(string \<times> WitAIEntity list) list"

definition symbolMap :: "(string \<times> string) list" where
  "symbolMap =
     [(''bitcoin'', ''BTC-USDT''),
      (''btc'', ''BTC-USDT''),
      (''ethereum'', ''ETH-USDT''),
      (''eth'', ''ETH-USDT''),
      (''solana'', ''SOL-USDT''),
      (''sol'', ''SOL-USDT''),
      (''bnb'', ''BNB-USDT''),
      (''xrp'', ''XRP-USDT''),
      (''ada'', ''ADA-USDT''),
      (''cardano'', ''ADA-USDT''),
      (''doge'', ''DOGE-USDT''),
      (''dogecoin'', ''DOGE-USDT'')]"

definition normalizeSymbol :: "string \<Rightarrow> string" where
  "normalizeSymbol symbol =
     (let normalized = ToLower (TrimSpace symbol)
      in case map_of symbolMap normalized of
           Some mapped \<Rightarrow> mapped
         | None \<Rightarrow>
             (let symbol' = ToUpper symbol
              in if \<not> HasSuffix symbol' ''-USDT'' then symbol' @ ''-USDT'' else symbol'))"

definition longSynonyms :: "string list" where
  "longSynonyms = [''buy'', ''long'', ''bullish'', ''comprar'', ''largo'', ''alcista'']"

definition shortSynonyms :: "string list" where
  "shortSynonyms = [''sell'', ''short'', ''bearish'', ''vender'', ''corto'', ''bajista'']"

definition normalizeSide :: "string \<Rightarrow> Side" where
  "normalizeSide side0 =
     (let side = ToLower (TrimSpace side0)
      in if List.member longSynonyms side then SideLong
         else if List.member shortSynonyms side then SideShort
         else SideLong)"

definition intentMap :: "(string \<times> Intent) list" where
  "intentMap =
     [(''open_position'', IntentOpenPosition),
      (''close_position'', IntentClosePosition),
      (''view_positions'', IntentViewPositions),
      (''view_orders'', IntentViewOrders),
      (''cancel_orders'', IntentCancelOrders),
      (''check_balance'', IntentCheckBalance),
      (''break_even'', IntentBreakEven),
      (''trailing_stop'', IntentTrailingStop)]"

definition mapWitIntent :: "string \<Rightarrow> Intent" where
  "mapWitIntent witIntent =
     (case map_of intentMap witIntent of
        Some mapped \<Rightarrow> mapped
      | None \<Rightarrow> IntentUnknown)"

text \<open>
  \<^verbatim>\<open>strconv.ParseFloat(s, 64)\<close> of the Go library is the parameter \<open>parseFloat\<close>:
  \<open>None\<close> when it returns an error, \<open>Some x\<close> when the error is nil.

  One round of the loop of \<^verbatim>\<open>parseTPLevels\<close>: \<open>levels\<close> is the slice built so far.
\<close>

definition parse_part ::
  "(string \<Rightarrow> float64 option) \<Rightarrow> TPLevel list \<Rightarrow> string \<Rightarrow> TPLevel list" where
  "parse_part parseFloat levels part =
     (let pricePct = Split (TrimSpace part) CHR '':''
      in if length pricePct \<noteq> 2 then levels
         else (case (parseFloat (pricePct ! 0), parseFloat (pricePct ! 1)) of
                 (Some price, Some pct) \<Rightarrow> levels @ [\<lparr>Price = price, Percentage = pct\<rparr>]
               | _ \<Rightarrow> levels))"

definition parseTPLevels :: "(string \<Rightarrow> float64 option) \<Rightarrow> string \<Rightarrow> TPLevel list" where
  "parseTPLevels parseFloat input = foldl (parse_part parseFloat) [] (Split input CHR '','')"

text \<open>The zero value of the struct, \<^verbatim>\<open>intent.NormalizedCommand{}\<close>.\<close>

definition zero_command :: NormalizedCommand where
  "zero_command =
     \<lparr>Intent = [], Confidence = Finite 0, Symbol = [], Side = None,
      EntryPrice = None, StopLoss = None, TakeProfit = None, TriggerPrice = None,
      TPLevels = [], RiskPercent = None, RRRatio = None, CallbackRate = None,
      Distance = None, Valid = False, Missing = [], Errors = [],
      RawInput = [], Language = [], Timestamp = 0\<rparr>"

text \<open>One round of the loop over the entities.\<close>

definition extract_entity ::
  "(string \<Rightarrow> float64 option) \<Rightarrow> NormalizedCommand \<Rightarrow> string \<times> WitAIEntity list
     \<Rightarrow> NormalizedCommand" where
  "extract_entity parseFloat cmd entry =
     (case entry of (entityName, entityValues) \<Rightarrow>
        (case entityValues of
           [] \<Rightarrow> cmd
         | entity # _ \<Rightarrow>
             if entityName = ''symbol'' then
               cmd\<lparr>Symbol := normalizeSymbol (entity_Value entity)\<rparr>
             else if entityName = ''side'' then
               cmd\<lparr>Side := Some (normalizeSide (entity_Value entity))\<rparr>
             else if entityName = ''entry_price'' \<or> entityName = ''price:entry'' then
               (case parseFloat (entity_Value entity) of
                  Some price \<Rightarrow> cmd\<lparr>EntryPrice := Some price\<rparr> | None \<Rightarrow> cmd)
             else if entityName = ''stop_loss'' \<or> entityName = ''price:stop_loss'' then
               (case parseFloat (entity_Value entity) of
                  Some sl \<Rightarrow> cmd\<lparr>StopLoss := Some sl\<rparr> | None \<Rightarrow> cmd)
             else if entityName = ''take_profit'' \<or> entityName = ''price:take_profit'' then
               (case parseFloat (entity_Value entity) of
                  Some tp \<Rightarrow> cmd\<lparr>TakeProfit := Some tp\<rparr> | None \<Rightarrow> cmd)
             else if entityName = ''risk'' then
               (case parseFloat (entity_Value entity) of
                  Some risk \<Rightarrow> cmd\<lparr>RiskPercent := Some risk\<rparr> | None \<Rightarrow> cmd)
             else if entityName = ''trigger_price'' then
               (case parseFloat (entity_Value entity) of
                  Some trigger \<Rightarrow> cmd\<lparr>TriggerPrice := Some trigger\<rparr> | None \<Rightarrow> cmd)
             else if entityName = ''callback_rate'' then
               (case parseFloat (entity_Value entity) of
                  Some cb \<Rightarrow> cmd\<lparr>CallbackRate := Some cb\<rparr> | None \<Rightarrow> cmd)
             else if entityName = ''levels'' then
               cmd\<lparr>TPLevels := parseTPLevels parseFloat (entity_Value entity)\<rparr>
             else cmd))"

text \<open>\<open>now\<close> is the value of \<^verbatim>\<open>time.Now()\<close>.\<close>

definition transformWitResponse ::
  "(string \<Rightarrow> float64 option) \<Rightarrow> int \<Rightarrow> WitAIResponse \<Rightarrow> string \<Rightarrow> NormalizedCommand" where
  "transformWitResponse parseFloat now resp rawInput =
     (let cmd0 = zero_command\<lparr>RawInput := rawInput, Timestamp := now\<rparr>;
          cmd1 = (case Intents resp of
                    [] \<Rightarrow> cmd0
                  | first # _ \<Rightarrow>
                      cmd0\<lparr>Intent := mapWitIntent (intent_Name first),
                           Confidence := intent_Confidence first\<rparr>)
      in foldl (extract_entity parseFloat) cmd1 (Entities resp))"

section \<open>What the validator finds, as lists\<close>

text \<open>
  The definitions of this section are not code of the program. They say, as functions of
  the command's input fields, which entries the specification expects in \<open>Missing\<close> and
  \<open>Errors\<close>; the theorems below compare the validator with them.

  \<open>record_findings ms es\<close> appends the entries \<open>ms\<close> and \<open>es\<close>, and clears \<open>Valid\<close>
  unless both are empty.
\<close>

definition record_findings ::
  "string list \<Rightarrow> string list \<Rightarrow> NormalizedCommand \<Rightarrow> NormalizedCommand" where
  "record_findings ms es cmd =
     cmd\<lparr>Missing := Missing cmd @ ms, Errors := Errors cmd @ es,
         Valid := (Valid cmd \<and> ms = [] \<and> es = [])\<rparr>"

definition open_missing :: "NormalizedCommand \<Rightarrow> string list" where
  "open_missing cmd =
     (if Symbol cmd = [] then [''symbol''] else [])
     @ (if Side cmd = None then [''side''] else [])
     @ (if EntryPrice cmd = None then [''entry_price''] else [])
     @ (if StopLoss cmd = None then [''stop_loss''] else [])
     @ (if RiskPercent cmd = None then [''risk_percent''] else [])"

definition risk_errors :: "NormalizedCommand \<Rightarrow> string list" where
  "risk_errors cmd =
     (if risk_out_of_range cmd then [''risk_percent must be between 0 and 100''] else [])"

definition price_errors :: "NormalizedCommand \<Rightarrow> string list" where
  "price_errors cmd =
     (case (Side cmd, EntryPrice cmd, StopLoss cmd) of
        (Some side, Some entry, Some sl) \<Rightarrow>
          (if side = SideLong \<and> f_ge sl entry
           then [''stop_loss must be below entry_price for LONG''] else [])
          @ (if side = SideShort \<and> f_le sl entry
             then [''stop_loss must be above entry_price for SHORT''] else [])
      | _ \<Rightarrow> [])"

definition tp_errors ::
  "(float64 \<Rightarrow> float64 \<Rightarrow> float64) \<Rightarrow> (float64 \<Rightarrow> string) \<Rightarrow> NormalizedCommand \<Rightarrow> string list" where
  "tp_errors fadd fmt1 cmd =
     (if length (TPLevels cmd) > 0 \<and> f_gt (totalPct fadd (TPLevels cmd)) (Finite 100)
      then [tp_error_message fmt1 (totalPct fadd (TPLevels cmd))] else [])"

definition open_errors ::
  "(float64 \<Rightarrow> float64 \<Rightarrow> float64) \<Rightarrow> (float64 \<Rightarrow> string) \<Rightarrow> NormalizedCommand \<Rightarrow> string list" where
  "open_errors fadd fmt1 cmd = risk_errors cmd @ price_errors cmd @ tp_errors fadd fmt1 cmd"

definition symbol_missing :: "NormalizedCommand \<Rightarrow> string list" where
  "symbol_missing cmd = (if Symbol cmd = [] then [''symbol''] else [])"

definition trailing_missing :: "NormalizedCommand \<Rightarrow> string list" where
  "trailing_missing cmd =
     (if Symbol cmd = [] then [''symbol''] else [])
     @ (if TriggerPrice cmd = None then [''trigger_price''] else [])
     @ (if CallbackRate cmd = None \<and> Distance cmd = None
        then [''callback_rate or distance''] else [])"

text \<open>The intents the \<^verbatim>\<open>switch\<close> of \<^verbatim>\<open>ValidateCommand\<close> has a case for.\<close>

definition recognized_intents :: "Intent list" where
  "recognized_intents =
     [IntentOpenPosition, IntentClosePosition, IntentTrailingStop, IntentBreakEven,
      IntentCancelOrders, IntentViewPositions, IntentViewOrders, IntentCheckBalance]"

text \<open>The level a trimmed token stands for, in the specification's words: the token,
  split on the colon, gives two halves, and both parse.\<close>

definition token_level :: "(string \<Rightarrow> float64 option) \<Rightarrow> string \<Rightarrow> TPLevel option" where
  "token_level parseFloat token =
     (case Split token CHR '':'' of
        [a, b] \<Rightarrow>
          (case (parseFloat a, parseFloat b) of
             (Some price, Some pct) \<Rightarrow> Some \<lparr>Price = price, Percentage = pct\<rparr>
           | _ \<Rightarrow> None)
      | _ \<Rightarrow> None)"

section \<open>Fixtures for the examples\<close>

text \<open>
  The command of the test "Valid open position - complete" of
  \<^verbatim>\<open>validators/command_test.go\<close>, and the one of "Valid trailing stop with callback rate".
\<close>

definition example_open :: NormalizedCommand where
  "example_open =
     zero_command\<lparr>Intent := IntentOpenPosition, Symbol := ''BTC-USDT'',
       Side := Some SideLong, EntryPrice := Some (Finite 45000),
       StopLoss := Some (Finite 44500), RiskPercent := Some (Finite 2)\<rparr>"

definition example_trailing :: NormalizedCommand where
  "example_trailing =
     zero_command\<lparr>Intent := IntentTrailingStop, Symbol := ''BTC-USDT'',
       TriggerPrice := Some (Finite 46000), CallbackRate := Some (Finite 1)\<rparr>"

text \<open>
  Two instances of the library parameters, for the examples. \<open>exact_add\<close> is the
  addition of \<^verbatim>\<open>float64\<close> where the sum of two finite values needs no rounding (IEEE 754
  then returns that sum). \<open>fixed1\<close> prints a value as the verb \<^verbatim>\<open>%.1f\<close> does: the nearest
  multiple of one tenth, a tie going to the even digit.
\<close>

fun exact_add :: "float64 \<Rightarrow> float64 \<Rightarrow> float64" where
  "exact_add (Finite a) (Finite b) = Finite (a + b)"
| "exact_add NaN _ = NaN"
| "exact_add _ NaN = NaN"
| "exact_add PosInf NegInf = NaN"
| "exact_add NegInf PosInf = NaN"
| "exact_add PosInf _ = PosInf"
| "exact_add _ PosInf = PosInf"
| "exact_add NegInf _ = NegInf"
| "exact_add _ NegInf = NegInf"

definition round_half_even :: "real \<Rightarrow> int" where
  "round_half_even x =
     (let f = \<lfloor>x\<rfloor>; d = x - of_int f
      in if d < 1 / 2 then f
         else if 1 / 2 < d then f + 1
         else if even f then f else f + 1)"

definition digit_char :: "nat \<Rightarrow> char" where
  "digit_char d = ''0123456789'' ! d"

fun decimal :: "nat \<Rightarrow> string" where
  "decimal n = (if n < 10 then [digit_char n] else decimal (n div 10) @ [digit_char (n mod 10)])"

fun fixed1 :: "float64 \<Rightarrow> string" where
  "fixed1 (Finite x) =
     (let tenths = nat (round_half_even (\<bar>x\<bar> * 10))
      in (if x < 0 then ''-'' else []) @ decimal (tenths div 10) @ ''.'' @ decimal (tenths mod 10))"
| "fixed1 PosInf = ''+Inf''"
| "fixed1 NegInf = ''-Inf''"
| "fixed1 NaN = ''NaN''"

text \<open>
  What \<^verbatim>\<open>strconv.ParseFloat\<close> returns on the numbers of the test "Partial invalid" of
  \<^verbatim>\<open>TestParseTPLevels\<close>; on the other strings of that test (\<open>invalid\<close> is one) it
  returns an error.
\<close>

definition example_parseFloat :: "string \<Rightarrow> float64 option" where
  "example_parseFloat =
     map_of [(''46000'', Finite 46000), (''47000'', Finite 47000), (''50'', Finite 50)]"

section \<open>The validator only appends findings\<close>

lemma record_findings_fields:
  "Intent (record_findings ms es c) = Intent c"
  "Symbol (record_findings ms es c) = Symbol c"
  "Side (record_findings ms es c) = Side c"
  "EntryPrice (record_findings ms es c) = EntryPrice c"
  "StopLoss (record_findings ms es c) = StopLoss c"
  "TriggerPrice (record_findings ms es c) = TriggerPrice c"
  "TPLevels (record_findings ms es c) = TPLevels c"
  "RiskPercent (record_findings ms es c) = RiskPercent c"
  "CallbackRate (record_findings ms es c) = CallbackRate c"
  "Distance (record_findings ms es c) = Distance c"
  by (simp_all add: record_findings_def)

lemma record_findings_results:
  "Missing (record_findings ms es c) = Missing c @ ms"
  "Errors (record_findings ms es c) = Errors c @ es"
  "Valid (record_findings ms es c) = (Valid c \<and> ms = [] \<and> es = [])"
  by (simp_all add: record_findings_def)

lemma record_findings_nothing: "record_findings [] [] c = c"
  by (simp add: record_findings_def)

lemma record_findings_twice:
  "record_findings ms2 es2 (record_findings ms1 es1 c) = record_findings (ms1 @ ms2) (es1 @ es2) c"
proof -
  have "(Valid c \<and> ms1 = [] \<and> es1 = [] \<and> ms2 = [] \<and> es2 = [])
      = (Valid c \<and> ms1 = [] \<and> ms2 = [] \<and> es1 = [] \<and> es2 = [])"
    by blast
  then show ?thesis
    by (simp add: record_findings_def)
qed

lemma if_add_missing:
  "if_stmt cond (add_missing f) c = record_findings (if cond c then [f] else []) [] c"
  by (simp add: if_stmt_def add_missing_def record_findings_def)

lemma if_add_error:
  "if_stmt cond (add_error e) c = record_findings [] (if cond c then [e] else []) c"
  by (simp add: if_stmt_def add_error_def record_findings_def)

lemma add_error_findings: "add_error e c = record_findings [] [e] c"
  by (simp add: add_error_def record_findings_def)

lemma price_logic_findings: "price_logic c = record_findings [] (price_errors c) c"
proof (cases "Side c")
  case None
  then show ?thesis
    by (simp add: price_logic_def price_errors_def record_findings_nothing)
next
  case side: (Some side)
  show ?thesis
  proof (cases "EntryPrice c")
    case None
    with side show ?thesis
      by (simp add: price_logic_def price_errors_def record_findings_nothing)
  next
    case entry: (Some entry)
    show ?thesis
    proof (cases "StopLoss c")
      case None
      with side entry show ?thesis
        by (simp add: price_logic_def price_errors_def record_findings_nothing)
    next
      case (Some sl)
      with side entry show ?thesis
        by (simp only: price_logic_def price_errors_def Let_def if_add_error
              record_findings_twice option.case prod.case append_Nil)
    qed
  qed
qed

lemma tp_check_findings:
  "if_stmt (\<lambda>c. length (TPLevels c) > 0) (tp_check fadd fmt1) c
     = record_findings [] (tp_errors fadd fmt1 c) c"
  by (simp add: if_stmt_def tp_check_def Let_def tp_errors_def add_error_def record_findings_def)

lemma findings_input_fields:
  "risk_errors (record_findings ms es c) = risk_errors c"
  "price_errors (record_findings ms es c) = price_errors c"
  "tp_errors fadd fmt1 (record_findings ms es c) = tp_errors fadd fmt1 c"
  "open_missing (record_findings ms es c) = open_missing c"
  by (simp_all only: risk_errors_def risk_out_of_range_def price_errors_def tp_errors_def
        open_missing_def record_findings_fields)

lemma validateOpenPosition_findings:
  "validateOpenPosition fadd fmt1 c
     = record_findings (open_missing c) (open_errors fadd fmt1 c) c"
  by (simp only: validateOpenPosition_def Let_def if_add_missing if_add_error
        price_logic_findings tp_check_findings record_findings_twice record_findings_fields
        findings_input_fields risk_errors_def[symmetric] risk_out_of_range_def[symmetric]
        open_missing_def open_errors_def append_Nil append_Nil2 append_assoc)

lemma validateTrailingStop_findings:
  "validateTrailingStop c = record_findings (trailing_missing c) [] c"
  by (simp only: validateTrailingStop_def Let_def if_add_missing record_findings_twice
        record_findings_fields trailing_missing_def append_Nil append_Nil2 append_assoc)

lemma validateClosePosition_findings:
  "validateClosePosition c = record_findings (symbol_missing c) [] c"
  by (simp only: validateClosePosition_def if_add_missing symbol_missing_def)

lemma validateBreakEven_findings:
  "validateBreakEven c = record_findings (symbol_missing c) [] c"
  by (simp only: validateBreakEven_def if_add_missing symbol_missing_def)

text \<open>The first three statements of \<^verbatim>\<open>ValidateCommand\<close> leave the input fields alone.\<close>

lemma reset_input_fields:
  "open_missing (c\<lparr>Valid := True, Missing := [], Errors := []\<rparr>) = open_missing c"
  "open_errors fadd fmt1 (c\<lparr>Valid := True, Missing := [], Errors := []\<rparr>) = open_errors fadd fmt1 c"
  "trailing_missing (c\<lparr>Valid := True, Missing := [], Errors := []\<rparr>) = trailing_missing c"
  "symbol_missing (c\<lparr>Valid := True, Missing := [], Errors := []\<rparr>) = symbol_missing c"
  by (simp_all add: open_missing_def open_errors_def risk_errors_def risk_out_of_range_def
        price_errors_def tp_errors_def trailing_missing_def symbol_missing_def)

lemmas Intent_defs =
  IntentOpenPosition_def IntentClosePosition_def IntentTrailingStop_def IntentBreakEven_def
  IntentCancelOrders_def IntentViewPositions_def IntentViewOrders_def IntentCheckBalance_def
  IntentUnknown_def

lemma ValidateCommand_open:
  assumes "Intent c = IntentOpenPosition"
  shows "ValidateCommand fadd fmt1 c
           = record_findings (open_missing c) (open_errors fadd fmt1 c)
               (c\<lparr>Valid := True, Missing := [], Errors := []\<rparr>)"
  using assms
  by (simp add: ValidateCommand_def Let_def validateOpenPosition_findings reset_input_fields)

lemma ValidateCommand_trailing:
  assumes "Intent c = IntentTrailingStop"
  shows "ValidateCommand fadd fmt1 c
           = record_findings (trailing_missing c) []
               (c\<lparr>Valid := True, Missing := [], Errors := []\<rparr>)"
proof -
  have "IntentTrailingStop \<noteq> IntentOpenPosition" "IntentTrailingStop \<noteq> IntentClosePosition"
    by (simp_all add: Intent_defs)
  with assms show ?thesis
    by (simp add: ValidateCommand_def Let_def validateTrailingStop_findings reset_input_fields)
qed

lemma ValidateCommand_unknown:
  assumes "Intent c \<notin> set recognized_intents"
  shows "ValidateCommand fadd fmt1 c
           = record_findings [] [''unknown intent: '' @ Intent c]
               (c\<lparr>Valid := True, Missing := [], Errors := []\<rparr>)"
  using assms
  by (simp add: ValidateCommand_def Let_def recognized_intents_def add_error_findings)

lemma findings_if:
  assumes "\<exists>ms es. x = record_findings ms es r" and "\<exists>ms es. y = record_findings ms es r"
  shows "\<exists>ms es. (if b then x else y) = record_findings ms es r"
  using assms by simp

lemma findings_self: "\<exists>ms es. r = record_findings ms es r"
proof (intro exI)
  show "r = record_findings [] [] r"
    by (simp only: record_findings_nothing)
qed

lemma findings_any: "\<exists>ms es. record_findings a b r = record_findings ms es r"
  by (intro exI) (rule refl)

lemma ValidateCommand_findings:
  "\<exists>ms es. ValidateCommand fadd fmt1 c
             = record_findings ms es (c\<lparr>Valid := True, Missing := [], Errors := []\<rparr>)"
  unfolding ValidateCommand_def Let_def validateOpenPosition_findings
    validateTrailingStop_findings validateClosePosition_findings
    validateBreakEven_findings add_error_findings
  by (intro findings_if findings_any findings_self)

lemma ValidateCommand_reset:
  "(ValidateCommand fadd fmt1 c)\<lparr>Valid := True, Missing := [], Errors := []\<rparr>
     = c\<lparr>Valid := True, Missing := [], Errors := []\<rparr>"
proof -
  obtain ms es where "ValidateCommand fadd fmt1 c
      = record_findings ms es (c\<lparr>Valid := True, Missing := [], Errors := []\<rparr>)"
    using ValidateCommand_findings by blast
  then show ?thesis
    by (simp add: record_findings_def)
qed

section \<open>Evaluation on concrete commands\<close>

lemmas validator_defs =
  ValidateCommand_def validateOpenPosition_def validateClosePosition_def
  validateTrailingStop_def validateBreakEven_def price_logic_def tp_check_def
  risk_out_of_range_def if_stmt_def add_missing_def add_error_def totalPct_def
  tp_error_message_def f_ge_def f_gt_def Let_def

lemmas fixture_defs =
  example_open_def example_trailing_def zero_command_def Intent_defs SideLong_def SideShort_def

lemma ValidateCommand_reads_reset:
  assumes "c\<lparr>Valid := True, Missing := [], Errors := []\<rparr>
             = c'\<lparr>Valid := True, Missing := [], Errors := []\<rparr>"
  shows "ValidateCommand fadd fmt1 c = ValidateCommand fadd fmt1 c'"
  unfolding ValidateCommand_def Let_def
  by (simp only: assms)

lemma extract_entity_Intent: "Intent (extract_entity parseFloat cmd entry) = Intent cmd"
proof (cases entry)
  case (Pair entityName entityValues)
  show ?thesis
  proof (cases entityValues)
    case Nil
    with Pair show ?thesis
      by (simp add: extract_entity_def)
  next
    case (Cons entity rest)
    with Pair show ?thesis
      by (simp add: extract_entity_def split: option.split)
  qed
qed

lemma extract_entities_Intent:
  "Intent (foldl (extract_entity parseFloat) cmd entries) = Intent cmd"
  by (induction entries arbitrary: cmd) (simp_all add: extract_entity_Intent)

lemma transform_no_intents:
  assumes "Intents resp = []"
  shows "Intent (transformWitResponse parseFloat now resp rawInput) = []"
  using assms
  by (simp add: transformWitResponse_def Let_def extract_entities_Intent zero_command_def)

lemma empty_not_recognized: "[] \<notin> set recognized_intents"
  by (simp add: recognized_intents_def Intent_defs)

lemma unknown_not_recognized: "IntentUnknown \<notin> set recognized_intents"
  by (simp add: recognized_intents_def Intent_defs)

section \<open>The results for an open\_position command\<close>

lemma open_results:
  assumes "Intent c = IntentOpenPosition"
  shows "Missing (ValidateCommand fadd fmt1 c) = open_missing c"
    and "Errors (ValidateCommand fadd fmt1 c)
           = risk_errors c @ price_errors c @ tp_errors fadd fmt1 c"
    and "Valid (ValidateCommand fadd fmt1 c)
           = (open_missing c = [] \<and> risk_errors c = [] \<and> price_errors c = []
              \<and> tp_errors fadd fmt1 c = [])"
  by (simp_all add: ValidateCommand_open [OF assms] record_findings_results open_errors_def)

lemma risk_message_in_risk_errors:
  "''risk_percent must be between 0 and 100'' \<in> set (risk_errors c)
     \<longleftrightarrow> (\<exists>r. RiskPercent c = Some r \<and> (f_le r (Finite 0) \<or> f_gt r (Finite 100)))"
  by (cases "RiskPercent c") (simp_all add: risk_errors_def risk_out_of_range_def)

lemma risk_message_not_elsewhere:
  "''risk_percent must be between 0 and 100'' \<notin> set (price_errors c)"
  "''risk_percent must be between 0 and 100'' \<notin> set (tp_errors fadd fmt1 c)"
  by (simp_all add: price_errors_def tp_errors_def tp_error_message_def
        split: option.split)

lemma sides_differ: "SideLong \<noteq> SideShort"
  by (simp add: SideLong_def SideShort_def)

lemma long_message_in_price_errors:
  "''stop_loss must be below entry_price for LONG'' \<in> set (price_errors c)
     \<longleftrightarrow> (\<exists>entry sl. Side c = Some SideLong \<and> EntryPrice c = Some entry
            \<and> StopLoss c = Some sl \<and> f_ge sl entry)"
  by (cases "Side c"; cases "EntryPrice c"; cases "StopLoss c")
     (simp_all add: price_errors_def)

lemma short_message_in_price_errors:
  "''stop_loss must be above entry_price for SHORT'' \<in> set (price_errors c)
     \<longleftrightarrow> (\<exists>entry sl. Side c = Some SideShort \<and> EntryPrice c = Some entry
            \<and> StopLoss c = Some sl \<and> f_le sl entry)"
  by (cases "Side c"; cases "EntryPrice c"; cases "StopLoss c")
     (simp_all add: price_errors_def)

lemma price_messages_not_elsewhere:
  "''stop_loss must be below entry_price for LONG'' \<notin> set (risk_errors c)"
  "''stop_loss must be above entry_price for SHORT'' \<notin> set (risk_errors c)"
  "''stop_loss must be below entry_price for LONG'' \<notin> set (tp_errors fadd fmt1 c)"
  "''stop_loss must be above entry_price for SHORT'' \<notin> set (tp_errors fadd fmt1 c)"
  by (simp_all add: risk_errors_def tp_errors_def tp_error_message_def)

lemma totalPct_percentages:
  "totalPct fadd tps = foldl fadd (Finite 0) (map Percentage tps)"
  by (simp add: totalPct_def foldl_map)

lemma without_levels:
  "Intent (c\<lparr>TPLevels := []\<rparr>) = Intent c"
  "open_missing (c\<lparr>TPLevels := []\<rparr>) = open_missing c"
  "risk_errors (c\<lparr>TPLevels := []\<rparr>) = risk_errors c"
  "price_errors (c\<lparr>TPLevels := []\<rparr>) = price_errors c"
  "tp_errors fadd fmt1 (c\<lparr>TPLevels := []\<rparr>) = []"
  by (simp_all add: open_missing_def risk_errors_def risk_out_of_range_def price_errors_def
        tp_errors_def)

section \<open>Trimming white space\<close>

lemma space_width_empty: "space_width [] = 0"
  by (simp add: space_width_def space_runes_def)

lemma last_space_width_empty: "last_space_width [] = 0"
  by (simp add: last_space_width_def space_runes_def)

lemma space_runes_shape:
  assumes "r \<in> set space_runes"
  shows "r \<noteq> []" and "\<not> continuation (hd r)" and "\<forall>c\<in>set (tl r). continuation c"
  using assms unfolding space_runes_def continuation_def
  by (simp_all, (elim disjE; simp)+)

lemma space_runes_cases:
  assumes "r \<in> set space_runes"
  shows "r = [CHR 0x09] \<or> r = [CHR 0x0A] \<or> r = [CHR 0x0B] \<or> r = [CHR 0x0C] \<or> r = [CHR 0x0D]
    \<or> r = [CHR 0x20] \<or> r = [CHR 0xC2, CHR 0x85] \<or> r = [CHR 0xC2, CHR 0xA0]
    \<or> r = [CHR 0xE1, CHR 0x9A, CHR 0x80]
    \<or> r = [CHR 0xE2, CHR 0x80, CHR 0x80] \<or> r = [CHR 0xE2, CHR 0x80, CHR 0x81]
    \<or> r = [CHR 0xE2, CHR 0x80, CHR 0x82] \<or> r = [CHR 0xE2, CHR 0x80, CHR 0x83]
    \<or> r = [CHR 0xE2, CHR 0x80, CHR 0x84] \<or> r = [CHR 0xE2, CHR 0x80, CHR 0x85]
    \<or> r = [CHR 0xE2, CHR 0x80, CHR 0x86] \<or> r = [CHR 0xE2, CHR 0x80, CHR 0x87]
    \<or> r = [CHR 0xE2, CHR 0x80, CHR 0x88] \<or> r = [CHR 0xE2, CHR 0x80, CHR 0x89]
    \<or> r = [CHR 0xE2, CHR 0x80, CHR 0x8A]
    \<or> r = [CHR 0xE2, CHR 0x80, CHR 0xA8] \<or> r = [CHR 0xE2, CHR 0x80, CHR 0xA9]
    \<or> r = [CHR 0xE2, CHR 0x80, CHR 0xAF]
    \<or> r = [CHR 0xE2, CHR 0x81, CHR 0x9F]
    \<or> r = [CHR 0xE3, CHR 0x80, CHR 0x80]"
  using assms by (simp add: space_runes_def)

lemma space_width_rune:
  assumes "r \<in> set space_runes"
  shows "space_width (r @ x) = length r"
  using space_runes_cases [OF assms] unfolding space_width_def space_runes_def
  by (elim disjE; (hypsubst, simp))

lemma last_space_width_rune:
  assumes "r \<in> set space_runes"
  shows "last_space_width (x @ r) = length r"
  using space_runes_cases [OF assms] unfolding last_space_width_def space_runes_def
  by (elim disjE; (hypsubst, simp))


lemma space_width_zero_iff:
  "space_width s = 0 \<longleftrightarrow> (\<forall>r\<in>set space_runes. take (length r) s \<noteq> r)"
proof (cases "find (\<lambda>r. take (length r) s = r) space_runes")
  case None
  then have "space_width s = 0"
    by (simp add: space_width_def)
  moreover from None have "\<forall>r\<in>set space_runes. take (length r) s \<noteq> r"
    by (simp add: find_None_iff)
  ultimately show ?thesis
    by simp
next
  case (Some r)
  then have "r \<in> set space_runes" "take (length r) s = r"
    by (auto simp: find_Some_iff)
  with Some space_runes_shape(1) [of r] show ?thesis
    by (auto simp: space_width_def)
qed

lemma last_space_width_zero_iff:
  "last_space_width s = 0 \<longleftrightarrow> (\<forall>r\<in>set space_runes. take (length r) (rev s) \<noteq> rev r)"
proof (cases "find (\<lambda>r. take (length r) (rev s) = rev r) space_runes")
  case None
  then have "last_space_width s = 0"
    by (simp add: last_space_width_def)
  moreover from None have "\<forall>r\<in>set space_runes. take (length r) (rev s) \<noteq> rev r"
    by (simp add: find_None_iff)
  ultimately show ?thesis
    by simp
next
  case (Some r)
  then have "r \<in> set space_runes" "take (length r) (rev s) = rev r"
    by (auto simp: find_Some_iff)
  with Some space_runes_shape(1) [of r] show ?thesis
    by (auto simp: last_space_width_def)
qed

lemma space_width_rune_found:
  assumes "space_width s \<noteq> 0"
  shows "\<exists>r\<in>set space_runes. s = r @ drop (space_width s) s \<and> space_width s = length r"
proof (cases "find (\<lambda>r. take (length r) s = r) space_runes")
  case None
  with assms show ?thesis
    by (simp add: space_width_def)
next
  case (Some r)
  then have r: "r \<in> set space_runes" "take (length r) s = r"
    by (auto simp: find_Some_iff)
  have "s = take (length r) s @ drop (length r) s"
    by simp
  with r Some show ?thesis
    by (auto simp: space_width_def)
qed

lemma last_space_width_rune_found:
  assumes "last_space_width s \<noteq> 0"
  shows "\<exists>r\<in>set space_runes. s = take (length s - last_space_width s) s @ r
            \<and> last_space_width s = length r"
proof (cases "find (\<lambda>r. take (length r) (rev s) = rev r) space_runes")
  case None
  with assms show ?thesis
    by (simp add: last_space_width_def)
next
  case (Some r)
  then have r: "r \<in> set space_runes" "take (length r) (rev s) = rev r"
    by (auto simp: find_Some_iff)
  from r(2) have "rev (take (length r) (rev s)) = r"
    by simp
  then have "drop (length s - length r) s = r"
    by (simp add: rev_take)
  then have "s = take (length s - length r) s @ r"
    by (metis append_take_drop_id)
  with r Some show ?thesis
    by (auto simp: last_space_width_def)
qed

lemma TrimLeftSpace_done: "space_width s = 0 \<Longrightarrow> TrimLeftSpace s = s"
  by (simp add: TrimLeftSpace.simps)

lemma TrimRightSpace_done: "last_space_width s = 0 \<Longrightarrow> TrimRightSpace s = s"
  by (simp add: TrimRightSpace.simps)

lemma TrimLeftSpace_rune:
  assumes "r \<in> set space_runes"
  shows "TrimLeftSpace (r @ x) = TrimLeftSpace x"
  using space_runes_shape(1) [OF assms]
  by (subst TrimLeftSpace.simps) (simp add: space_width_rune [OF assms])

lemma TrimRightSpace_rune:
  assumes "r \<in> set space_runes"
  shows "TrimRightSpace (x @ r) = TrimRightSpace x"
  using space_runes_shape(1) [OF assms]
  by (subst TrimRightSpace.simps) (simp add: last_space_width_rune [OF assms])

lemma TrimLeftSpace_padding:
  assumes "set rs \<subseteq> set space_runes"
  shows "TrimLeftSpace (concat rs @ x) = TrimLeftSpace x"
  using assms by (induction rs) (simp_all add: TrimLeftSpace_rune)

lemma TrimRightSpace_padding:
  assumes "set rs \<subseteq> set space_runes"
  shows "TrimRightSpace (x @ concat rs) = TrimRightSpace x"
  using assms
proof (induction rs rule: rev_induct)
  case Nil
  show ?case by simp
next
  case (snoc r rs)
  then have r: "r \<in> set space_runes" and rs: "set rs \<subseteq> set space_runes"
    by simp_all
  have "TrimRightSpace ((x @ concat rs) @ r) = TrimRightSpace (x @ concat rs)"
    by (rule TrimRightSpace_rune [OF r])
  also have "\<dots> = TrimRightSpace x"
    by (rule snoc.IH [OF rs])
  finally show ?case
    by simp
qed


lemma space_width_stays_zero:
  assumes zero: "space_width core = 0" and "core \<noteq> []" and "set rs \<subseteq> set space_runes"
  shows "space_width (core @ concat rs) = 0"
proof (cases rs)
  case Nil
  with zero show ?thesis by simp
next
  case (Cons r rs')
  with assms(3) have r: "r \<in> set space_runes"
    by simp
  obtain h t where r_eq: "r = h # t"
    using space_runes_shape(1) [OF r] by (cases r) auto
  have lead: "\<not> continuation h"
    using space_runes_shape(2) [OF r] r_eq by simp
  have "take (length p) (core @ concat rs) \<noteq> p" if p: "p \<in> set space_runes" for p
  proof
    assume match: "take (length p) (core @ concat rs) = p"
    show False
    proof (cases "length p \<le> length core")
      case True
      with match have "take (length p) core = p"
        by simp
      with zero p show False
        by (simp add: space_width_zero_iff)
    next
      case False
      then have index: "length core < length p"
        by simp
      obtain k where k: "length core = Suc k"
        using assms(2) by (cases core) auto
      from match have "p ! length core = take (length p) (core @ concat rs) ! length core"
        by simp
      also have "\<dots> = (core @ concat rs) ! length core"
        using index by (simp only: nth_take)
      also have "\<dots> = h"
        using Cons r_eq by (simp add: nth_append)
      finally have at: "p ! Suc k = h"
        using k by simp
      have bound: "k < length (tl p)"
        using index k by simp
      then have "tl p ! k = h"
        using at by (simp add: nth_tl)
      with bound have "h \<in> set (tl p)"
        using nth_mem by blast
      with space_runes_shape(3) [OF p] lead show False
        by blast
    qed
  qed
  then show ?thesis
    by (simp add: space_width_zero_iff)
qed

lemma TrimSpace_padded:
  assumes "set before \<subseteq> set space_runes" and "set after \<subseteq> set space_runes"
    and "space_width core = 0" and "last_space_width core = 0"
  shows "TrimSpace (concat before @ core @ concat after) = core"
proof (cases "core = []")
  case True
  have "TrimLeftSpace (concat before @ concat after @ []) = TrimLeftSpace []"
    by (simp only: TrimLeftSpace_padding [OF assms(1)] TrimLeftSpace_padding [OF assms(2)])
  then show ?thesis
    using True
    by (simp add: TrimSpace_def TrimLeftSpace_done TrimRightSpace_done space_width_empty
          last_space_width_empty)
next
  case False
  have "TrimLeftSpace (concat before @ core @ concat after) = TrimLeftSpace (core @ concat after)"
    by (rule TrimLeftSpace_padding [OF assms(1)])
  also have "\<dots> = core @ concat after"
    by (rule TrimLeftSpace_done) (rule space_width_stays_zero [OF assms(3) False assms(2)])
  finally show ?thesis
    by (simp add: TrimSpace_def TrimRightSpace_padding [OF assms(2)]
          TrimRightSpace_done [OF assms(4)])
qed

lemma TrimLeftSpace_decompose:
  "\<exists>rs. set rs \<subseteq> set space_runes \<and> s = concat rs @ TrimLeftSpace s
        \<and> space_width (TrimLeftSpace s) = 0"
proof (induction s rule: TrimLeftSpace.induct)
  case (1 s)
  show ?case
  proof (cases "space_width s = 0")
    case True
    then have "set [] \<subseteq> set space_runes \<and> s = concat [] @ TrimLeftSpace s
        \<and> space_width (TrimLeftSpace s) = 0"
      by (simp add: TrimLeftSpace_done)
    then show ?thesis
      by blast
  next
    case False
    then obtain r where r: "r \<in> set space_runes" "s = r @ drop (space_width s) s"
      using space_width_rune_found by blast
    have step: "TrimLeftSpace s = TrimLeftSpace (drop (space_width s) s)"
      using False by (subst TrimLeftSpace.simps) simp
    obtain rs where rs: "set rs \<subseteq> set space_runes"
      "drop (space_width s) s = concat rs @ TrimLeftSpace (drop (space_width s) s)"
      "space_width (TrimLeftSpace (drop (space_width s) s)) = 0"
      using "1.IH" [OF False] by blast
    have "s = concat (r # rs) @ TrimLeftSpace s"
      using r(2) rs(2) step by (metis append.assoc concat.simps(2))
    with r(1) rs(1) rs(3) step
    have "set (r # rs) \<subseteq> set space_runes \<and> s = concat (r # rs) @ TrimLeftSpace s
        \<and> space_width (TrimLeftSpace s) = 0"
      by simp
    then show ?thesis
      by blast
  qed
qed

lemma TrimRightSpace_decompose:
  "\<exists>rs. set rs \<subseteq> set space_runes \<and> s = TrimRightSpace s @ concat rs
        \<and> last_space_width (TrimRightSpace s) = 0"
proof (induction s rule: TrimRightSpace.induct)
  case (1 s)
  let ?rest = "take (length s - last_space_width s) s"
  show ?case
  proof (cases "last_space_width s = 0")
    case True
    then have "set [] \<subseteq> set space_runes \<and> s = TrimRightSpace s @ concat []
        \<and> last_space_width (TrimRightSpace s) = 0"
      by (simp add: TrimRightSpace_done)
    then show ?thesis
      by blast
  next
    case False
    then obtain r where r: "r \<in> set space_runes" "s = ?rest @ r"
      using last_space_width_rune_found by blast
    have step: "TrimRightSpace s = TrimRightSpace ?rest"
      using False by (subst TrimRightSpace.simps) simp
    obtain rs where rs: "set rs \<subseteq> set space_runes"
      "?rest = TrimRightSpace ?rest @ concat rs"
      "last_space_width (TrimRightSpace ?rest) = 0"
      using "1.IH" [OF False] by blast
    have "s = (TrimRightSpace ?rest @ concat rs) @ r"
      using r(2) rs(2) by simp
    then have "s = TrimRightSpace s @ concat (rs @ [r])"
      using step by simp
    with r(1) rs(1) rs(3) step
    have "set (rs @ [r]) \<subseteq> set space_runes \<and> s = TrimRightSpace s @ concat (rs @ [r])
        \<and> last_space_width (TrimRightSpace s) = 0"
      by simp
    then show ?thesis
      by blast
  qed
qed

lemma space_width_prefix:
  assumes "space_width (y @ z) = 0"
  shows "space_width y = 0"
proof -
  have "take (length p) y \<noteq> p" if p: "p \<in> set space_runes" for p
  proof
    assume match: "take (length p) y = p"
    then have "length (take (length p) y) = length p"
      by simp
    then have "length p \<le> length y"
      by simp
    with match have "take (length p) (y @ z) = p"
      by simp
    with assms p show False
      by (simp add: space_width_zero_iff)
  qed
  then show ?thesis
    by (simp add: space_width_zero_iff)
qed

lemma TrimSpace_decompose:
  "\<exists>before after. set before \<subseteq> set space_runes \<and> set after \<subseteq> set space_runes
      \<and> s = concat before @ TrimSpace s @ concat after
      \<and> space_width (TrimSpace s) = 0 \<and> last_space_width (TrimSpace s) = 0"
proof -
  obtain before where before: "set before \<subseteq> set space_runes"
    "s = concat before @ TrimLeftSpace s" "space_width (TrimLeftSpace s) = 0"
    using TrimLeftSpace_decompose by blast
  obtain after where after: "set after \<subseteq> set space_runes"
    "TrimLeftSpace s = TrimSpace s @ concat after" "last_space_width (TrimSpace s) = 0"
    using TrimRightSpace_decompose [of "TrimLeftSpace s"] by (auto simp: TrimSpace_def)
  have "space_width (TrimSpace s) = 0"
    using before(3) after(2) space_width_prefix by metis
  moreover have "s = concat before @ TrimSpace s @ concat after"
    using before(2) after(2) by simp
  ultimately show ?thesis
    using before(1) after(1) after(3) by blast
qed

lemmas trim_eval =
  TrimSpace_def TrimLeftSpace.simps TrimRightSpace.simps space_width_def last_space_width_def
  space_runes_def

section \<open>Splitting and parsing\<close>

lemma Split_not_empty: "Split s sep \<noteq> []"
  by (induction s) (auto split: list.split)

lemma Split_append: "Split (a @ sep # b) sep = Split a sep @ Split b sep"
proof (induction a)
  case Nil
  show ?case by simp
next
  case (Cons c a)
  show ?case
  proof (cases "c = sep")
    case True
    with Cons show ?thesis by simp
  next
    case False
    obtain w ws where "Split a sep = w # ws"
      using Split_not_empty [of a sep] by (cases "Split a sep") auto
    with False Cons show ?thesis by simp
  qed
qed

lemma Split_no_separator: "sep \<notin> set s \<Longrightarrow> Split s sep = [s]"
  by (induction s) auto

lemma parse_part_token_level:
  "parse_part parseFloat levels part
     = levels @ (case token_level parseFloat (TrimSpace part) of
                   None \<Rightarrow> [] | Some level \<Rightarrow> [level])"
proof (cases "Split (TrimSpace part) CHR '':''")
  case Nil
  then show ?thesis
    by (simp add: parse_part_def token_level_def)
next
  case first: (Cons a rest)
  show ?thesis
  proof (cases rest)
    case Nil
    with first show ?thesis
      by (simp add: parse_part_def token_level_def)
  next
    case second: (Cons b rest')
    show ?thesis
    proof (cases rest')
      case Nil
      with first second show ?thesis
        by (simp add: parse_part_def token_level_def split: option.split)
    next
      case (Cons x rest'')
      with first second show ?thesis
        by (simp add: parse_part_def token_level_def)
    qed
  qed
qed

lemma parse_loop:
  "foldl (parse_part parseFloat) levels parts
     = levels @ List.map_filter (token_level parseFloat) (map TrimSpace parts)"
proof (induction parts arbitrary: levels)
  case Nil
  show ?case by (simp add: List.map_filter_simps)
next
  case (Cons part parts)
  have "foldl (parse_part parseFloat) levels (part # parts)
      = foldl (parse_part parseFloat) (parse_part parseFloat levels part) parts"
    by simp
  also have "\<dots> = parse_part parseFloat levels part
      @ List.map_filter (token_level parseFloat) (map TrimSpace parts)"
    by (rule Cons.IH)
  also have "\<dots> = levels
      @ List.map_filter (token_level parseFloat) (map TrimSpace (part # parts))"
    by (cases "token_level parseFloat (TrimSpace part)")
       (simp_all add: parse_part_token_level List.map_filter_simps)
  finally show ?case .
qed

lemma parseTPLevels_tokens:
  "parseTPLevels parseFloat input
     = List.map_filter (token_level parseFloat) (map TrimSpace (Split input CHR '',''))"
  by (simp add: parseTPLevels_def parse_loop)

lemma map_filter_append:
  "List.map_filter f (xs @ ys) = List.map_filter f xs @ List.map_filter f ys"
  by (simp add: List.map_filter_def)

lemma token_level_Some_iff:
  "token_level parseFloat token \<noteq> None
     \<longleftrightarrow> (\<exists>a b price pct. Split token CHR '':'' = [a, b]
            \<and> parseFloat a = Some price \<and> parseFloat b = Some pct)"
  by (auto simp: token_level_def split: list.splits option.splits)

text \<open>Where the input has no white space around it, the fallback of \<^verbatim>\<open>normalizeSymbol\<close>
  is the upper-cased input with the suffix, added unless it is there already.\<close>

lemma normalizeSymbol_unpadded:
  assumes "TrimSpace symbol = symbol" and "map_of symbolMap (ToLower symbol) = None"
  shows "normalizeSymbol symbol
           = (if HasSuffix (ToUpper symbol) ''-USDT'' then ToUpper symbol
              else ToUpper symbol @ ''-USDT'')"
  using assms by (simp add: normalizeSymbol_def Let_def)

section \<open>Claims about the validator\<close>

text \<open>
  C1. For every command and every intent value, after \<^verbatim>\<open>ValidateCommand\<close> returns,
  \<open>Valid\<close> is true if and only if both \<open>Missing\<close> and \<open>Errors\<close> are empty lists. The
  validator starts from two empty lists and only appends, so the lists are empty at the
  end exactly when nothing was appended.
\<close>

theorem C1_valid_iff_nothing_appended:
  "Valid (ValidateCommand fadd fmt1 c)
     \<longleftrightarrow> Missing (ValidateCommand fadd fmt1 c) = [] \<and> Errors (ValidateCommand fadd fmt1 c) = []"
proof -
  obtain ms es where "ValidateCommand fadd fmt1 c
      = record_findings ms es (c\<lparr>Valid := True, Missing := [], Errors := []\<rparr>)"
    using ValidateCommand_findings by blast
  then show ?thesis
    by (simp add: record_findings_results)
qed

theorem C1_witness:
  "Valid (ValidateCommand exact_add fixed1 example_open)
   \<and> Missing (ValidateCommand exact_add fixed1 example_open) = []
   \<and> Errors (ValidateCommand exact_add fixed1 example_open) = []
   \<and> \<not> Valid (ValidateCommand exact_add fixed1 (example_open\<lparr>Symbol := []\<rparr>))
   \<and> Missing (ValidateCommand exact_add fixed1 (example_open\<lparr>Symbol := []\<rparr>)) = [''symbol'']"
proof -
  have m: "Missing (ValidateCommand exact_add fixed1 example_open) = []"
    by (simp add: validator_defs fixture_defs)
  have e: "Errors (ValidateCommand exact_add fixed1 example_open) = []"
    by (simp add: validator_defs fixture_defs)
  have m': "Missing (ValidateCommand exact_add fixed1 (example_open\<lparr>Symbol := []\<rparr>)) = [''symbol'']"
    by (simp add: validator_defs fixture_defs)
  show ?thesis
    using m e m'
      C1_valid_iff_nothing_appended [of exact_add fixed1 example_open]
      C1_valid_iff_nothing_appended [of exact_add fixed1 "example_open\<lparr>Symbol := []\<rparr>"]
    by simp
qed

text \<open>
  C10. \<^verbatim>\<open>ValidateCommand\<close> is idempotent: running it twice in succession leaves the
  command with the same \<open>Valid\<close>, \<open>Missing\<close> and \<open>Errors\<close> as running it once (the whole
  command is the same). It resets the three fields first and reads only the others.
\<close>

theorem C10_validate_idempotent:
  "ValidateCommand fadd fmt1 (ValidateCommand fadd fmt1 c) = ValidateCommand fadd fmt1 c
   \<and> Valid (ValidateCommand fadd fmt1 (ValidateCommand fadd fmt1 c))
       = Valid (ValidateCommand fadd fmt1 c)
   \<and> Missing (ValidateCommand fadd fmt1 (ValidateCommand fadd fmt1 c))
       = Missing (ValidateCommand fadd fmt1 c)
   \<and> Errors (ValidateCommand fadd fmt1 (ValidateCommand fadd fmt1 c))
       = Errors (ValidateCommand fadd fmt1 c)"
proof -
  have "ValidateCommand fadd fmt1 (ValidateCommand fadd fmt1 c) = ValidateCommand fadd fmt1 c"
    by (rule ValidateCommand_reads_reset) (rule ValidateCommand_reset)
  then show ?thesis
    by simp
qed

theorem C10_witness:
  "Missing (ValidateCommand exact_add fixed1
      (ValidateCommand exact_add fixed1 (example_open\<lparr>Symbol := []\<rparr>))) = [''symbol'']"
proof -
  have "Missing (ValidateCommand exact_add fixed1 (example_open\<lparr>Symbol := []\<rparr>)) = [''symbol'']"
    by (simp add: validator_defs fixture_defs)
  then show ?thesis
    using C10_validate_idempotent [of exact_add fixed1 "example_open\<lparr>Symbol := []\<rparr>"]
    by simp
qed

text \<open>
  C6. For every \<open>trailing_stop\<close> command, the validator requires \<open>symbol\<close> and
  \<open>trigger_price\<close> individually, and, exactly when both \<open>callback_rate\<close> and \<open>distance\<close> are
  absent, appends the single entry \<open>callback_rate or distance\<close>; either one of the two being
  present gives no such entry. Each entry clears \<open>Valid\<close>, and no error is recorded.
\<close>

theorem C6_trailing_stop_missing:
  assumes "Intent c = IntentTrailingStop"
  shows "Missing (ValidateCommand fadd fmt1 c)
           = (if Symbol c = [] then [''symbol''] else [])
             @ (if TriggerPrice c = None then [''trigger_price''] else [])
             @ (if CallbackRate c = None \<and> Distance c = None
                then [''callback_rate or distance''] else [])
         \<and> Errors (ValidateCommand fadd fmt1 c) = []
         \<and> (Valid (ValidateCommand fadd fmt1 c)
              \<longleftrightarrow> Symbol c \<noteq> [] \<and> TriggerPrice c \<noteq> None
                   \<and> (CallbackRate c \<noteq> None \<or> Distance c \<noteq> None))"
  by (simp add: ValidateCommand_trailing [OF assms] record_findings_results trailing_missing_def)

theorem C6_witness:
  "Intent (example_trailing\<lparr>CallbackRate := None\<rparr>) = IntentTrailingStop
   \<and> Missing (ValidateCommand exact_add fixed1 (example_trailing\<lparr>CallbackRate := None\<rparr>))
        = [''callback_rate or distance'']
   \<and> \<not> Valid (ValidateCommand exact_add fixed1 (example_trailing\<lparr>CallbackRate := None\<rparr>))
   \<and> Intent example_trailing = IntentTrailingStop
   \<and> Missing (ValidateCommand exact_add fixed1 example_trailing) = []
   \<and> Valid (ValidateCommand exact_add fixed1 example_trailing)"
proof -
  have h: "Intent (example_trailing\<lparr>CallbackRate := None\<rparr>) = IntentTrailingStop"
    by (simp add: fixture_defs)
  have h': "Intent example_trailing = IntentTrailingStop"
    by (simp add: fixture_defs)
  show ?thesis
    using h h' C6_trailing_stop_missing [OF h, of exact_add fixed1]
      C6_trailing_stop_missing [OF h', of exact_add fixed1]
    by (simp add: example_trailing_def zero_command_def)
qed

text \<open>
  C8. For every command whose intent is \<open>unknown\<close> or any other value without a case in
  the validator, the zero value left by the transformer when the classification result
  has no intent candidates included, the validator clears \<open>Valid\<close>, records exactly one
  error, \<open>unknown intent: \<close> followed by the intent value, and no missing-field entry.
\<close>

theorem C8_unknown_intent:
  "(Intent c \<notin> set recognized_intents \<longrightarrow>
      \<not> Valid (ValidateCommand fadd fmt1 c)
      \<and> Errors (ValidateCommand fadd fmt1 c) = [''unknown intent: '' @ Intent c]
      \<and> Missing (ValidateCommand fadd fmt1 c) = [])
   \<and> IntentUnknown \<notin> set recognized_intents
   \<and> (Intents resp = [] \<longrightarrow>
        Intent (transformWitResponse parseFloat now resp rawInput) = []
        \<and> \<not> Valid (ValidateCommand fadd fmt1 (transformWitResponse parseFloat now resp rawInput))
        \<and> Errors (ValidateCommand fadd fmt1 (transformWitResponse parseFloat now resp rawInput))
            = [''unknown intent: '']
        \<and> Missing (ValidateCommand fadd fmt1 (transformWitResponse parseFloat now resp rawInput))
            = [])"
proof -
  have general: "\<not> Valid (ValidateCommand fadd fmt1 d)
      \<and> Errors (ValidateCommand fadd fmt1 d) = [''unknown intent: '' @ Intent d]
      \<and> Missing (ValidateCommand fadd fmt1 d) = []"
    if "Intent d \<notin> set recognized_intents" for d
    by (simp add: ValidateCommand_unknown [OF that] record_findings_results)
  have zero: "Intent (transformWitResponse parseFloat now resp rawInput) \<notin> set recognized_intents"
    if "Intents resp = []"
    using transform_no_intents [OF that] empty_not_recognized by simp
  show ?thesis
    using general [of c] general [OF zero] transform_no_intents [of resp parseFloat now rawInput]
      unknown_not_recognized
    by simp
qed

theorem C8_witness:
  "Intent (zero_command\<lparr>Intent := IntentUnknown\<rparr>) \<notin> set recognized_intents
   \<and> \<not> Valid (ValidateCommand exact_add fixed1 (zero_command\<lparr>Intent := IntentUnknown\<rparr>))
   \<and> Errors (ValidateCommand exact_add fixed1 (zero_command\<lparr>Intent := IntentUnknown\<rparr>))
        = [''unknown intent: unknown'']
   \<and> Intents \<lparr>Text = ''hola'', Intents = [], Entities = []\<rparr> = []
   \<and> Errors (ValidateCommand exact_add fixed1
        (transformWitResponse Map.empty 0 \<lparr>Text = ''hola'', Intents = [], Entities = []\<rparr> ''hola''))
        = [''unknown intent: '']"
proof -
  have h: "Intent (zero_command\<lparr>Intent := IntentUnknown\<rparr>) \<notin> set recognized_intents"
    using unknown_not_recognized by simp
  show ?thesis
    using h
      C8_unknown_intent [of "zero_command\<lparr>Intent := IntentUnknown\<rparr>" exact_add fixed1
        "\<lparr>Text = ''hola'', Intents = [], Entities = []\<rparr>" Map.empty 0 "''hola''"]
    by (simp add: IntentUnknown_def)
qed

text \<open>
  C2. For every \<open>open_position\<close> command, the validator appends to \<open>Missing\<close> exactly one
  entry per absent field among \<open>symbol\<close>, \<open>side\<close>, \<open>entry_price\<close>, \<open>stop_loss\<close>,
  \<open>risk_percent\<close>, in that order and without stopping at the first; each absence clears
  \<open>Valid\<close>; and the error checks still run afterwards: \<open>Errors\<close> holds the findings of
  the range check, of the price check and of the take-profit check, whatever is missing.
\<close>

theorem C2_open_position_missing:
  assumes "Intent c = IntentOpenPosition"
  shows "Missing (ValidateCommand fadd fmt1 c)
           = (if Symbol c = [] then [''symbol''] else [])
             @ (if Side c = None then [''side''] else [])
             @ (if EntryPrice c = None then [''entry_price''] else [])
             @ (if StopLoss c = None then [''stop_loss''] else [])
             @ (if RiskPercent c = None then [''risk_percent''] else [])
         \<and> (Symbol c = [] \<or> Side c = None \<or> EntryPrice c = None \<or> StopLoss c = None
              \<or> RiskPercent c = None \<longrightarrow> \<not> Valid (ValidateCommand fadd fmt1 c))
         \<and> Errors (ValidateCommand fadd fmt1 c)
             = risk_errors c @ price_errors c @ tp_errors fadd fmt1 c"
proof -
  have "open_missing c \<noteq> []"
    if "Symbol c = [] \<or> Side c = None \<or> EntryPrice c = None \<or> StopLoss c = None
          \<or> RiskPercent c = None"
    using that by (auto simp: open_missing_def)
  then show ?thesis
    by (auto simp: open_results [OF assms] open_missing_def)
qed

theorem C2_witness:
  "Intent (example_open\<lparr>Symbol := [], StopLoss := None, RiskPercent := Some (Finite 150)\<rparr>)
     = IntentOpenPosition
   \<and> Missing (ValidateCommand exact_add fixed1
        (example_open\<lparr>Symbol := [], StopLoss := None, RiskPercent := Some (Finite 150)\<rparr>))
        = [''symbol'', ''stop_loss'']
   \<and> \<not> Valid (ValidateCommand exact_add fixed1
        (example_open\<lparr>Symbol := [], StopLoss := None, RiskPercent := Some (Finite 150)\<rparr>))
   \<and> Errors (ValidateCommand exact_add fixed1
        (example_open\<lparr>Symbol := [], StopLoss := None, RiskPercent := Some (Finite 150)\<rparr>))
        = [''risk_percent must be between 0 and 100'']"
proof -
  let ?c = "example_open\<lparr>Symbol := [], StopLoss := None, RiskPercent := Some (Finite 150)\<rparr>"
  have h: "Intent ?c = IntentOpenPosition"
    by (simp add: fixture_defs)
  show ?thesis
    using h C2_open_position_missing [OF h, of exact_add fixed1]
    by (simp add: example_open_def zero_command_def risk_errors_def risk_out_of_range_def
          price_errors_def tp_errors_def f_gt_def)
qed

text \<open>
  C3. For every \<open>open_position\<close> command: the error
  \<open>stop_loss must be below entry_price for LONG\<close> is recorded exactly when side, entry price
  and stop loss are all present, the side is LONG and \<open>stop_loss >= entry_price\<close>; the error
  \<open>stop_loss must be above entry_price for SHORT\<close> exactly when all three are present, the
  side is SHORT and \<open>stop_loss <= entry_price\<close>. Equal prices give the error in both cases,
  either error clears \<open>Valid\<close>, and with any of the three fields absent neither is recorded.
\<close>

theorem C3_stop_loss_against_entry:
  assumes "Intent c = IntentOpenPosition"
  shows "(''stop_loss must be below entry_price for LONG''
            \<in> set (Errors (ValidateCommand fadd fmt1 c))
          \<longleftrightarrow> (\<exists>entry sl. Side c = Some SideLong \<and> EntryPrice c = Some entry
                 \<and> StopLoss c = Some sl \<and> f_ge sl entry))
       \<and> (''stop_loss must be above entry_price for SHORT''
            \<in> set (Errors (ValidateCommand fadd fmt1 c))
          \<longleftrightarrow> (\<exists>entry sl. Side c = Some SideShort \<and> EntryPrice c = Some entry
                 \<and> StopLoss c = Some sl \<and> f_le sl entry))
       \<and> (''stop_loss must be below entry_price for LONG''
            \<in> set (Errors (ValidateCommand fadd fmt1 c))
          \<or> ''stop_loss must be above entry_price for SHORT''
            \<in> set (Errors (ValidateCommand fadd fmt1 c))
          \<longrightarrow> \<not> Valid (ValidateCommand fadd fmt1 c))
       \<and> (Side c = None \<or> EntryPrice c = None \<or> StopLoss c = None \<longrightarrow>
            ''stop_loss must be below entry_price for LONG''
              \<notin> set (Errors (ValidateCommand fadd fmt1 c))
            \<and> ''stop_loss must be above entry_price for SHORT''
              \<notin> set (Errors (ValidateCommand fadd fmt1 c)))
       \<and> (EntryPrice c = Some (Finite x) \<and> StopLoss c = Some (Finite x) \<longrightarrow>
            (Side c = Some SideLong \<longrightarrow>
               ''stop_loss must be below entry_price for LONG''
                 \<in> set (Errors (ValidateCommand fadd fmt1 c)))
            \<and> (Side c = Some SideShort \<longrightarrow>
               ''stop_loss must be above entry_price for SHORT''
                 \<in> set (Errors (ValidateCommand fadd fmt1 c))))"
proof -
  let ?long = "''stop_loss must be below entry_price for LONG''"
  let ?short = "''stop_loss must be above entry_price for SHORT''"
  let ?errors = "Errors (ValidateCommand fadd fmt1 c)"
  have long: "?long \<in> set ?errors \<longleftrightarrow> ?long \<in> set (price_errors c)"
    by (simp add: open_results(2) [OF assms] price_messages_not_elsewhere)
  have short: "?short \<in> set ?errors \<longleftrightarrow> ?short \<in> set (price_errors c)"
    by (simp add: open_results(2) [OF assms] price_messages_not_elsewhere)
  have invalid: "\<not> Valid (ValidateCommand fadd fmt1 c)" if "e \<in> set (price_errors c)" for e
  proof -
    from that have "price_errors c \<noteq> []"
      by auto
    then show ?thesis
      by (simp add: open_results(3) [OF assms])
  qed
  have equal: "f_ge (Finite x) (Finite x)" "f_le (Finite x) (Finite x)"
    by (simp_all add: f_ge_def)
  show ?thesis
    unfolding long short long_message_in_price_errors short_message_in_price_errors
    using invalid [of ?long] invalid [of ?short] equal
    unfolding long_message_in_price_errors short_message_in_price_errors
    by auto
qed

theorem C3_witness:
  "Intent (example_open\<lparr>StopLoss := Some (Finite 46000)\<rparr>) = IntentOpenPosition
   \<and> ''stop_loss must be below entry_price for LONG''
       \<in> set (Errors (ValidateCommand exact_add fixed1
                 (example_open\<lparr>StopLoss := Some (Finite 46000)\<rparr>)))
   \<and> \<not> Valid (ValidateCommand exact_add fixed1 (example_open\<lparr>StopLoss := Some (Finite 46000)\<rparr>))
   \<and> ''stop_loss must be above entry_price for SHORT''
       \<notin> set (Errors (ValidateCommand exact_add fixed1
                 (example_open\<lparr>StopLoss := Some (Finite 46000)\<rparr>)))"
proof -
  let ?c = "example_open\<lparr>StopLoss := Some (Finite 46000)\<rparr>"
  have h: "Intent ?c = IntentOpenPosition"
    by (simp add: fixture_defs)
  have fields: "Side ?c = Some SideLong" "EntryPrice ?c = Some (Finite 45000)"
    "StopLoss ?c = Some (Finite 46000)"
    by (simp_all add: example_open_def zero_command_def)
  have cmp: "f_ge (Finite 46000) (Finite 45000)"
    by (simp add: f_ge_def)
  show ?thesis
    using h C3_stop_loss_against_entry [OF h, of exact_add fixed1 0] fields cmp sides_differ
    by simp
qed

text \<open>
  C9. For every \<open>open_position\<close> command in which \<open>risk_percent\<close> is present, the error
  \<open>risk_percent must be between 0 and 100\<close> is recorded, and \<open>Valid\<close> cleared, exactly when
  \<open>risk_percent <= 0\<close> or \<open>risk_percent > 100\<close>, that is, for a finite value, when it is
  outside (0,100]: 100 gives no error and 0 gives the error. An absent \<open>risk_percent\<close>
  gives no range error, only the missing-field entry.
\<close>

theorem C9_risk_percent_range:
  assumes "Intent c = IntentOpenPosition"
  shows "(''risk_percent must be between 0 and 100''
            \<in> set (Errors (ValidateCommand fadd fmt1 c))
          \<longleftrightarrow> (\<exists>r. RiskPercent c = Some r \<and> (f_le r (Finite 0) \<or> f_gt r (Finite 100))))
       \<and> (''risk_percent must be between 0 and 100''
            \<in> set (Errors (ValidateCommand fadd fmt1 c))
          \<longrightarrow> \<not> Valid (ValidateCommand fadd fmt1 c))
       \<and> (RiskPercent c = Some (Finite x) \<longrightarrow>
            (''risk_percent must be between 0 and 100''
               \<in> set (Errors (ValidateCommand fadd fmt1 c))
             \<longleftrightarrow> \<not> (0 < x \<and> x \<le> 100)))
       \<and> (RiskPercent c = Some (Finite 100) \<longrightarrow>
            ''risk_percent must be between 0 and 100''
              \<notin> set (Errors (ValidateCommand fadd fmt1 c)))
       \<and> (RiskPercent c = Some (Finite 0) \<longrightarrow>
            ''risk_percent must be between 0 and 100''
              \<in> set (Errors (ValidateCommand fadd fmt1 c)))
       \<and> (RiskPercent c = None \<longrightarrow>
            ''risk_percent must be between 0 and 100''
              \<notin> set (Errors (ValidateCommand fadd fmt1 c))
            \<and> ''risk_percent'' \<in> set (Missing (ValidateCommand fadd fmt1 c)))"
proof -
  let ?msg = "''risk_percent must be between 0 and 100''"
  have iff: "?msg \<in> set (Errors (ValidateCommand fadd fmt1 c))
      \<longleftrightarrow> (\<exists>r. RiskPercent c = Some r \<and> (f_le r (Finite 0) \<or> f_gt r (Finite 100)))"
    by (simp add: open_results(2) [OF assms] risk_message_not_elsewhere
          risk_message_in_risk_errors)
  have invalid: "\<not> Valid (ValidateCommand fadd fmt1 c)" if "?msg \<in> set (risk_errors c)"
  proof -
    from that have "risk_errors c \<noteq> []"
      by auto
    then show ?thesis
      by (simp add: open_results(3) [OF assms])
  qed
  have missing: "''risk_percent'' \<in> set (Missing (ValidateCommand fadd fmt1 c))"
    if "RiskPercent c = None"
    using that by (simp add: open_results(1) [OF assms] open_missing_def)
  have finite: "(f_le (Finite x) (Finite 0) \<or> f_gt (Finite x) (Finite 100)) \<longleftrightarrow> \<not> (0 < x \<and> x \<le> 100)"
    by (auto simp: f_gt_def)
  show ?thesis
    unfolding iff
    using invalid missing finite
    by (auto simp: risk_message_in_risk_errors f_gt_def)
qed

theorem C9_witness:
  "Intent (example_open\<lparr>RiskPercent := Some (Finite 150)\<rparr>) = IntentOpenPosition
   \<and> ''risk_percent must be between 0 and 100''
       \<in> set (Errors (ValidateCommand exact_add fixed1
                 (example_open\<lparr>RiskPercent := Some (Finite 150)\<rparr>)))
   \<and> \<not> Valid (ValidateCommand exact_add fixed1 (example_open\<lparr>RiskPercent := Some (Finite 150)\<rparr>))"
proof -
  let ?c = "example_open\<lparr>RiskPercent := Some (Finite 150)\<rparr>"
  have h: "Intent ?c = IntentOpenPosition"
    by (simp add: fixture_defs)
  have field: "RiskPercent ?c = Some (Finite 150)"
    by simp
  show ?thesis
    using h C9_risk_percent_range [OF h, of exact_add fixed1 150] field
    by (simp add: f_gt_def)
qed

text \<open>
  C4. For every \<open>open_position\<close> command the take-profit check appends, after the errors
  the command would have without take-profit levels, one error exactly when the levels are
  not empty and the sum of their percentages exceeds 100: the text
  \<open>TP percentages sum to \<close>, the sum printed with one decimal, \<open>%, cannot exceed 100%\<close>; it
  then clears \<open>Valid\<close>. A sum of 100 or less gives no error, and an empty sequence is not
  checked. Levels of 60 and 50 give \<open>TP percentages sum to 110.0%, cannot exceed 100%\<close>,
  the two additions being exact and 110 being printed as \<open>110.0\<close>.
\<close>

theorem C4_tp_percentages:
  assumes "Intent c = IntentOpenPosition"
  shows "Errors (ValidateCommand fadd fmt1 c)
           = Errors (ValidateCommand fadd fmt1 (c\<lparr>TPLevels := []\<rparr>))
             @ (if TPLevels c \<noteq> [] \<and> f_gt (totalPct fadd (TPLevels c)) (Finite 100)
                then [''TP percentages sum to '' @ fmt1 (totalPct fadd (TPLevels c))
                        @ ''%, cannot exceed 100%'']
                else [])
         \<and> totalPct fadd (TPLevels c) = foldl fadd (Finite 0) (map Percentage (TPLevels c))
         \<and> (TPLevels c \<noteq> [] \<and> f_gt (totalPct fadd (TPLevels c)) (Finite 100)
              \<longrightarrow> \<not> Valid (ValidateCommand fadd fmt1 c))
         \<and> (totalPct fadd (TPLevels c) = Finite x \<and> x \<le> 100 \<longrightarrow>
              Errors (ValidateCommand fadd fmt1 c)
                = Errors (ValidateCommand fadd fmt1 (c\<lparr>TPLevels := []\<rparr>))
              \<and> Valid (ValidateCommand fadd fmt1 c)
                = Valid (ValidateCommand fadd fmt1 (c\<lparr>TPLevels := []\<rparr>)))
         \<and> (map Percentage (TPLevels c) = [Finite 60, Finite 50]
              \<and> fadd (Finite 0) (Finite 60) = Finite 60
              \<and> fadd (Finite 60) (Finite 50) = Finite 110
              \<and> fmt1 (Finite 110) = ''110.0''
              \<longrightarrow> Errors (ValidateCommand fadd fmt1 c)
                    = Errors (ValidateCommand fadd fmt1 (c\<lparr>TPLevels := []\<rparr>))
                      @ [''TP percentages sum to 110.0%, cannot exceed 100%''])"
proof -
  have without: "Intent (c\<lparr>TPLevels := []\<rparr>) = IntentOpenPosition"
    using assms by simp
  have errors: "Errors (ValidateCommand fadd fmt1 c)
      = Errors (ValidateCommand fadd fmt1 (c\<lparr>TPLevels := []\<rparr>)) @ tp_errors fadd fmt1 c"
    by (simp add: open_results(2) [OF assms] open_results(2) [OF without] without_levels)
  have valid: "Valid (ValidateCommand fadd fmt1 c)
      = (Valid (ValidateCommand fadd fmt1 (c\<lparr>TPLevels := []\<rparr>)) \<and> tp_errors fadd fmt1 c = [])"
    by (simp add: open_results(3) [OF assms] open_results(3) [OF without] without_levels)
  have shape: "tp_errors fadd fmt1 c
      = (if TPLevels c \<noteq> [] \<and> f_gt (totalPct fadd (TPLevels c)) (Finite 100)
         then [''TP percentages sum to '' @ fmt1 (totalPct fadd (TPLevels c))
                 @ ''%, cannot exceed 100%'']
         else [])"
    by (simp add: tp_errors_def tp_error_message_def)
  have small: "tp_errors fadd fmt1 c = []" if "totalPct fadd (TPLevels c) = Finite x" "x \<le> 100"
    using that by (simp add: tp_errors_def f_gt_def)
  have example: "tp_errors fadd fmt1 c = [''TP percentages sum to 110.0%, cannot exceed 100%'']"
    if "map Percentage (TPLevels c) = [Finite 60, Finite 50]"
      "fadd (Finite 0) (Finite 60) = Finite 60" "fadd (Finite 60) (Finite 50) = Finite 110"
      "fmt1 (Finite 110) = ''110.0''"
  proof -
    have "totalPct fadd (TPLevels c) = Finite 110"
      using that by (simp add: totalPct_percentages)
    moreover have "TPLevels c \<noteq> []"
      using that(1) by auto
    ultimately show ?thesis
      using that(4) by (simp add: shape f_gt_def)
  qed
  have invalid: "\<not> Valid (ValidateCommand fadd fmt1 c)"
    if "TPLevels c \<noteq> [] \<and> f_gt (totalPct fadd (TPLevels c)) (Finite 100)"
    using that by (simp add: valid shape)
  have unchanged: "Errors (ValidateCommand fadd fmt1 c)
        = Errors (ValidateCommand fadd fmt1 (c\<lparr>TPLevels := []\<rparr>))
      \<and> Valid (ValidateCommand fadd fmt1 c)
        = Valid (ValidateCommand fadd fmt1 (c\<lparr>TPLevels := []\<rparr>))"
    if "totalPct fadd (TPLevels c) = Finite x \<and> x \<le> 100"
    using that small by (simp add: errors valid)
  have example': "Errors (ValidateCommand fadd fmt1 c)
        = Errors (ValidateCommand fadd fmt1 (c\<lparr>TPLevels := []\<rparr>))
          @ [''TP percentages sum to 110.0%, cannot exceed 100%'']"
    if "map Percentage (TPLevels c) = [Finite 60, Finite 50]
        \<and> fadd (Finite 0) (Finite 60) = Finite 60
        \<and> fadd (Finite 60) (Finite 50) = Finite 110
        \<and> fmt1 (Finite 110) = ''110.0''"
    using that example by (simp add: errors)
  have first: "Errors (ValidateCommand fadd fmt1 c)
        = Errors (ValidateCommand fadd fmt1 (c\<lparr>TPLevels := []\<rparr>))
          @ (if TPLevels c \<noteq> [] \<and> f_gt (totalPct fadd (TPLevels c)) (Finite 100)
             then [''TP percentages sum to '' @ fmt1 (totalPct fadd (TPLevels c))
                     @ ''%, cannot exceed 100%'']
             else [])"
    by (simp only: errors shape)
  show ?thesis
    using first totalPct_percentages [of fadd "TPLevels c"] invalid unchanged example'
    by blast
qed

theorem C4_witness:
  "Intent (example_open\<lparr>TPLevels := [\<lparr>Price = Finite 46000, Percentage = Finite 60\<rparr>,
                                     \<lparr>Price = Finite 47000, Percentage = Finite 50\<rparr>]\<rparr>)
     = IntentOpenPosition
   \<and> exact_add (Finite 0) (Finite 60) = Finite 60
   \<and> exact_add (Finite 60) (Finite 50) = Finite 110
   \<and> fixed1 (Finite 110) = ''110.0''
   \<and> Errors (ValidateCommand exact_add fixed1
        (example_open\<lparr>TPLevels := [\<lparr>Price = Finite 46000, Percentage = Finite 60\<rparr>,
                                   \<lparr>Price = Finite 47000, Percentage = Finite 50\<rparr>]\<rparr>))
       = [''TP percentages sum to 110.0%, cannot exceed 100%'']"
proof -
  let ?c = "example_open\<lparr>TPLevels := [\<lparr>Price = Finite 46000, Percentage = Finite 60\<rparr>,
                                     \<lparr>Price = Finite 47000, Percentage = Finite 50\<rparr>]\<rparr>"
  have h: "Intent ?c = IntentOpenPosition"
    by (simp add: fixture_defs)
  have printed: "fixed1 (Finite 110) = ''110.0''"
    by (simp add: round_half_even_def digit_char_def Let_def)
  have base: "Errors (ValidateCommand exact_add fixed1 (?c\<lparr>TPLevels := []\<rparr>)) = []"
    by (simp add: validator_defs fixture_defs)
  show ?thesis
    using h printed base C4_tp_percentages [OF h, of exact_add fixed1 0]
    by (simp add: f_gt_def totalPct_def)
qed

section \<open>Claims about the transformer\<close>

text \<open>
  C5. The claim: for every input not found in the synonym table, \<^verbatim>\<open>normalizeSymbol\<close>
  returns the trimmed input, upper-cased, with \<open>-USDT\<close> appended unless the input ends in
  \<open>-USDT\<close> already. The code trims only for the lookup: the fallback upper-cases the
  input as it came. On \<open> xyz \<close> (a space on each side) the table has no entry for the
  trimmed, lower-cased text; the claim gives \<open>XYZ-USDT\<close> and the code returns
  \<open> XYZ -USDT\<close>. On \<open>btc-usdt \<close> (a space at the end) the code appends the suffix a
  second time.
\<close>

theorem C5_padded_symbol_not_trimmed:
  "map_of symbolMap (ToLower (TrimSpace '' xyz '')) = None
   \<and> ToUpper (TrimSpace '' xyz '') @ ''-USDT'' = ''XYZ-USDT''
   \<and> normalizeSymbol '' xyz '' = '' XYZ -USDT''
   \<and> map_of symbolMap (ToLower (TrimSpace ''btc-usdt '')) = None
   \<and> ToUpper (TrimSpace ''btc-usdt '') = ''BTC-USDT''
   \<and> normalizeSymbol ''btc-usdt '' = ''BTC-USDT -USDT''"
  by code_simp

text \<open>
  C7. For every input string, \<^verbatim>\<open>parseTPLevels\<close> splits it on commas, trims each token,
  and keeps, in the order of the input, the level of each trimmed token that has one: the
  trimmed token, split on the colon, gives two halves that both parse. Trimming is
  removing the white space at both ends: a token made of white-space code points, a core
  that neither starts nor ends with one, and white-space code points again, is trimmed
  to the core, and every token is of that form. A token without a level is dropped and
  changes nothing else: the levels of \<open>left,token,right\<close> are those of \<open>left\<close> followed
  by those of \<open>right\<close>. The empty input gives the empty sequence.
\<close>

theorem C7_parse_tp_levels:
  "parseTPLevels parseFloat input
     = List.map_filter (token_level parseFloat) (map TrimSpace (Split input CHR '',''))
   \<and> (token_level parseFloat core \<noteq> None
        \<longleftrightarrow> (\<exists>a b price pct. Split core CHR '':'' = [a, b]
               \<and> parseFloat a = Some price \<and> parseFloat b = Some pct))
   \<and> (set before \<subseteq> set space_runes \<and> set after \<subseteq> set space_runes
        \<and> space_width core = 0 \<and> last_space_width core = 0 \<longrightarrow>
        TrimSpace (concat before @ core @ concat after) = core)
   \<and> (\<exists>before' after'. set before' \<subseteq> set space_runes \<and> set after' \<subseteq> set space_runes
        \<and> token = concat before' @ TrimSpace token @ concat after'
        \<and> space_width (TrimSpace token) = 0 \<and> last_space_width (TrimSpace token) = 0)
   \<and> parseTPLevels parseFloat [] = []
   \<and> parseTPLevels parseFloat (left @ '','' @ right)
       = parseTPLevels parseFloat left @ parseTPLevels parseFloat right
   \<and> (CHR '','' \<notin> set token \<and> token_level parseFloat (TrimSpace token) = None \<longrightarrow>
        parseTPLevels parseFloat (left @ '','' @ token @ '','' @ right)
          = parseTPLevels parseFloat left @ parseTPLevels parseFloat right)"
proof -
  have trimmed: "TrimSpace (concat before @ core @ concat after) = core"
    if "set before \<subseteq> set space_runes \<and> set after \<subseteq> set space_runes
        \<and> space_width core = 0 \<and> last_space_width core = 0"
    using that by (simp add: TrimSpace_padded)
  have empty: "parseTPLevels parseFloat [] = []"
    by (simp add: parseTPLevels_tokens List.map_filter_simps token_level_def TrimSpace_def
          TrimLeftSpace_done TrimRightSpace_done space_width_empty last_space_width_empty)
  have joined: "parseTPLevels parseFloat (x @ '','' @ y)
      = parseTPLevels parseFloat x @ parseTPLevels parseFloat y" for x y
    by (simp add: parseTPLevels_tokens Split_append map_filter_append)
  have dropped: "parseTPLevels parseFloat token = []"
    if "CHR '','' \<notin> set token" "token_level parseFloat (TrimSpace token) = None"
    using that by (simp add: parseTPLevels_tokens Split_no_separator List.map_filter_simps)
  have middle: "parseTPLevels parseFloat (left @ '','' @ token @ '','' @ right)
      = parseTPLevels parseFloat left @ parseTPLevels parseFloat right"
    if "CHR '','' \<notin> set token \<and> token_level parseFloat (TrimSpace token) = None"
    using that dropped joined [of left "token @ '','' @ right"] joined [of token right]
    by simp
  show ?thesis
    using parseTPLevels_tokens [of parseFloat input] token_level_Some_iff [of parseFloat core]
      trimmed TrimSpace_decompose [of token] empty joined [of left right] middle
    by blast
qed

theorem C7_witness:
  "set ['' '', [CHR 0xC2, CHR 0xA0]] \<subseteq> set space_runes \<and> set [[CHR 0x09]] \<subseteq> set space_runes
   \<and> space_width ''46000:50'' = 0 \<and> last_space_width ''46000:50'' = 0
   \<and> TrimSpace ('' '' @ [CHR 0xC2, CHR 0xA0] @ ''46000:50'' @ [CHR 0x09]) = ''46000:50''
   \<and> CHR '','' \<notin> set ''invalid'' \<and> token_level example_parseFloat (TrimSpace ''invalid'') = None
   \<and> parseTPLevels example_parseFloat
        ('' 46000:50 ,invalid,'' @ [CHR 0xC2, CHR 0xA0] @ ''47000:50'')
       = [\<lparr>Price = Finite 46000, Percentage = Finite 50\<rparr>,
          \<lparr>Price = Finite 47000, Percentage = Finite 50\<rparr>]"
proof -
  have runes: "set ['' '', [CHR 0xC2, CHR 0xA0]] \<subseteq> set space_runes"
    "set [[CHR 0x09]] \<subseteq> set space_runes"
    by (simp_all add: space_runes_def)
  have core: "space_width ''46000:50'' = 0" "last_space_width ''46000:50'' = 0"
    by (simp_all add: trim_eval)
  have comma: "CHR '','' \<notin> set ''invalid''"
    by simp
  have none: "token_level example_parseFloat (TrimSpace ''invalid'') = None"
    by (simp add: token_level_def trim_eval example_parseFloat_def)
  have first: "parseTPLevels example_parseFloat '' 46000:50 ''
      = [\<lparr>Price = Finite 46000, Percentage = Finite 50\<rparr>]"
    by (simp add: parseTPLevels_def parse_part_def trim_eval example_parseFloat_def)
  have second: "parseTPLevels example_parseFloat ([CHR 0xC2, CHR 0xA0] @ ''47000:50'')
      = [\<lparr>Price = Finite 47000, Percentage = Finite 50\<rparr>]"
    by (simp add: parseTPLevels_def parse_part_def trim_eval example_parseFloat_def)
  show ?thesis
    using runes core comma none first second
      C7_parse_tp_levels [of example_parseFloat "[]" "''46000:50''"
        "['' '', [CHR 0xC2, CHR 0xA0]]" "[[CHR 0x09]]" "''invalid''"
        "'' 46000:50 ''" "[CHR 0xC2, CHR 0xA0] @ ''47000:50''"]
    by simp
qed

end
